theory Spec2Isabelle
  imports Complex_Main
begin

unbundle bit_operations_syntax

section \<open>JavaScript numbers, as far as the decoder uses them\<close>

text \<open>
  A frame is a \<^verbatim>\<open>number[]\<close>: its elements are IEEE doubles, so they may be negative,
  fractional, NaN or infinite (the test suite feeds \<^verbatim>\<open>-1\<close>, \<^verbatim>\<open>128\<close> and \<^verbatim>\<open>60.5\<close>).
  Every finite double is a rational, and the decoder only applies \<^verbatim>\<open>Number.isInteger\<close>,
  \<^verbatim>\<open>>=\<close>, \<^verbatim>\<open><=\<close>, \<^verbatim>\<open>===\<close> and \<^verbatim>\<open>&\<close> to the elements, all of which are exact functions of
  the value; so a finite number is modelled by its rational value. Negative zero is
  identified with zero: the five operations do not tell them apart.
\<close>

datatype number = Finite rat | NaN | PosInfinity | NegInfinity

abbreviation Num :: "int \<Rightarrow> number" where
  "Num k \<equiv> Finite (of_int k)"

text \<open>\<^verbatim>\<open>Number.isInteger\<close>\<close>

fun isInteger :: "number \<Rightarrow> bool" where
  "isInteger (Finite q) = (of_int \<lfloor>q\<rfloor> = q)"
| "isInteger NaN = False"
| "isInteger PosInfinity = False"
| "isInteger NegInfinity = False"

text \<open>\<^verbatim>\<open>a >= b\<close> and \<^verbatim>\<open>a <= b\<close> on numbers: false as soon as one side is NaN.\<close>

fun ge_number :: "number \<Rightarrow> number \<Rightarrow> bool" where
  "ge_number NaN b = False"
| "ge_number a NaN = False"
| "ge_number (Finite a) (Finite b) = (b \<le> a)"
| "ge_number PosInfinity b = True"
| "ge_number a NegInfinity = True"
| "ge_number NegInfinity b = False"
| "ge_number a PosInfinity = False"

definition le_number :: "number \<Rightarrow> number \<Rightarrow> bool" where
  "le_number a b = ge_number b a"

text \<open>
  The operands of \<^verbatim>\<open>&\<close> go through ToInt32: NaN and the infinities become 0, a finite
  number is truncated towards zero and reduced modulo \<open>2^32\<close> into the signed range.
\<close>

definition truncate_toward_zero :: "rat \<Rightarrow> int" where
  "truncate_toward_zero q = (if 0 \<le> q then \<lfloor>q\<rfloor> else \<lceil>q\<rceil>)"

fun ToInt32 :: "number \<Rightarrow> int" where
  "ToInt32 (Finite q) = signed_take_bit 31 (truncate_toward_zero q)"
| "ToInt32 NaN = 0"
| "ToInt32 PosInfinity = 0"
| "ToInt32 NegInfinity = 0"

definition bitand :: "number \<Rightarrow> number \<Rightarrow> int" where
  "bitand a b = ToInt32 a AND ToInt32 b"

section \<open>midiTypes.ts\<close>

datatype MidiMessageType = NOTE_ON | NOTE_OFF | CONTROL_CHANGE | PROGRAM_CHANGE

text \<open>\<^verbatim>\<open>MIDI_CONSTANTS\<close>; the status constants are \<open>0x80\<close>, \<open>0x90\<close>, \<open>0xB0\<close>, \<open>0xC0\<close>.\<close>

definition NOTE_OFF_STATUS :: int where "NOTE_OFF_STATUS = 128"
definition NOTE_ON_STATUS :: int where "NOTE_ON_STATUS = 144"
definition CONTROL_CHANGE_STATUS :: int where "CONTROL_CHANGE_STATUS = 176"
definition PROGRAM_CHANGE_STATUS :: int where "PROGRAM_CHANGE_STATUS = 192"

definition MIN_CHANNEL :: number where "MIN_CHANNEL = Num 1"
definition MAX_CHANNEL :: number where "MAX_CHANNEL = Num 16"
definition MIN_NOTE :: number where "MIN_NOTE = Num 0"
definition MAX_NOTE :: number where "MAX_NOTE = Num 127"
definition MIN_VELOCITY :: number where "MIN_VELOCITY = Num 0"
definition MAX_VELOCITY :: number where "MAX_VELOCITY = Num 127"
definition MIN_CONTROLLER :: number where "MIN_CONTROLLER = Num 0"
definition MAX_CONTROLLER :: number where "MAX_CONTROLLER = Num 127"

definition NOTE_ON_ZERO_VELOCITY_IS_NOTE_OFF :: bool where
  "NOTE_ON_ZERO_VELOCITY_IS_NOTE_OFF = True"

text \<open>
  \<^verbatim>\<open>interface MidiMessage\<close>: the optional fields are options. The field names carry
  the suffix \<open>_m\<close>, which keeps the source's names free for the local variables.
\<close>

record MidiMessage =
  type_m :: MidiMessageType
  channel_m :: int
  note_m :: "number option"
  velocity_m :: "number option"
  controller_m :: "number option"
  value_m :: "number option"
  timestamp_m :: int

definition isValidMidiChannel :: "number \<Rightarrow> bool" where
  "isValidMidiChannel channel \<longleftrightarrow>
     isInteger channel \<and> ge_number channel MIN_CHANNEL \<and> le_number channel MAX_CHANNEL"

definition isValidMidiNote :: "number \<Rightarrow> bool" where
  "isValidMidiNote note \<longleftrightarrow>
     isInteger note \<and> ge_number note MIN_NOTE \<and> le_number note MAX_NOTE"

definition isValidMidiVelocity :: "number \<Rightarrow> bool" where
  "isValidMidiVelocity velocity \<longleftrightarrow>
     isInteger velocity \<and> ge_number velocity MIN_VELOCITY \<and> le_number velocity MAX_VELOCITY"

definition isValidMidiController :: "number \<Rightarrow> bool" where
  "isValidMidiController controller \<longleftrightarrow>
     isInteger controller \<and> ge_number controller MIN_CONTROLLER
       \<and> le_number controller MAX_CONTROLLER"

section \<open>MidiManager.parseMidiMessage\<close>

text \<open>
  The capture time \<^verbatim>\<open>Date.now()\<close> is the parameter \<open>now\<close>. \<^verbatim>\<open>null\<close> is \<open>None\<close>.
  The two destructurings \<^verbatim>\<open>[statusByte, ...dataBytes] = message\<close> and
  \<^verbatim>\<open>[note, velocity] = dataBytes\<close> stand behind the length checks of the source, so
  \<open>hd\<close> and \<open>!\<close> are only read in range.
\<close>

definition parseMidiMessage :: "int \<Rightarrow> number list \<Rightarrow> MidiMessage option" where
  "parseMidiMessage now message =
    (if length message < 2 then None
     else
       let statusByte = hd message;
           dataBytes = tl message;
           messageType = bitand statusByte (Num 240);
           channel = bitand statusByte (Num 15) + 1
       in
         if \<not> isValidMidiChannel (Num channel) then None
         else if messageType = NOTE_ON_STATUS then
           (if length dataBytes < 2 then None
            else
              let note = dataBytes ! 0; velocity = dataBytes ! 1 in
                if \<not> isValidMidiNote note \<or> \<not> isValidMidiVelocity velocity then None
                else
                  let type = (if velocity = Num 0 \<and> NOTE_ON_ZERO_VELOCITY_IS_NOTE_OFF
                              then NOTE_OFF else NOTE_ON)
                  in Some \<lparr>type_m = type, channel_m = channel, note_m = Some note,
                            velocity_m = Some velocity, controller_m = None, value_m = None,
                            timestamp_m = now\<rparr>)
         else if messageType = NOTE_OFF_STATUS then
           (if length dataBytes < 2 then None
            else
              let note = dataBytes ! 0; velocity = dataBytes ! 1 in
                if \<not> isValidMidiNote note \<or> \<not> isValidMidiVelocity velocity then None
                else Some \<lparr>type_m = NOTE_OFF, channel_m = channel, note_m = Some note,
                            velocity_m = Some velocity, controller_m = None, value_m = None,
                            timestamp_m = now\<rparr>)
         else if messageType = CONTROL_CHANGE_STATUS then
           (if length dataBytes < 2 then None
            else
              let controller = dataBytes ! 0; value = dataBytes ! 1 in
                if \<not> isValidMidiController controller \<or> \<not> isValidMidiVelocity value then None
                else Some \<lparr>type_m = CONTROL_CHANGE, channel_m = channel, note_m = None,
                            velocity_m = None, controller_m = Some controller,
                            value_m = Some value, timestamp_m = now\<rparr>)
         else if messageType = PROGRAM_CHANGE_STATUS then
           (if length dataBytes < 1 then None
            else
              let value = dataBytes ! 0 in
                if \<not> isValidMidiVelocity value then None
                else Some \<lparr>type_m = PROGRAM_CHANGE, channel_m = channel, note_m = None,
                            velocity_m = None, controller_m = None, value_m = Some value,
                            timestamp_m = now\<rparr>)
         else None)"

section \<open>Devices and the diff of two device lists\<close>

text \<open>
  \<^verbatim>\<open>interface MidiDevice\<close>; the field names carry the suffix \<open>_d\<close>. Strings are compared
  for equality only.
\<close>

record MidiDevice =
  id_d :: string
  name_d :: string
  manufacturer_d :: "string option"
  connected_d :: bool

text \<open>The result \<^verbatim>\<open>{ added, removed }\<close> of \<^verbatim>\<open>compareDeviceLists\<close>.\<close>

record DeviceChanges =
  added :: "MidiDevice list"
  removed :: "MidiDevice list"

text \<open>
  \<^verbatim>\<open>DeviceDetector.compareDeviceLists\<close>. \<^verbatim>\<open>new Set(xs.map(device => device.id))\<close> is the set
  of the ids and \<^verbatim>\<open>has\<close> is membership; \<^verbatim>\<open>filter\<close> keeps the order of the list.
\<close>

definition compareDeviceLists :: "MidiDevice list \<Rightarrow> MidiDevice list \<Rightarrow> DeviceChanges" where
  "compareDeviceLists oldDevices newDevices =
    (let oldIds = set (map (\<lambda>device. id_d device) oldDevices);
         newIds = set (map (\<lambda>device. id_d device) newDevices);
         added = filter (\<lambda>device. \<not> (id_d device \<in> oldIds)) newDevices;
         removed = filter (\<lambda>device. \<not> (id_d device \<in> newIds)) oldDevices
     in \<lparr>added = added, removed = removed\<rparr>)"

section \<open>Errors, events and the event emitter\<close>

datatype MidiErrorType =
  DEVICE_NOT_FOUND | CONNECTION_FAILED | PERMISSION_DENIED | DEVICE_BUSY | INVALID_MESSAGE
  | UNKNOWN_ERROR

text \<open>
  A thrown value: a plain \<^verbatim>\<open>Error\<close> with its message (what the \<^verbatim>\<open>midi\<close> package or a listener
  throws), or a \<^verbatim>\<open>MidiError\<close> with its type, message and \<^verbatim>\<open>originalError\<close>. The test
  \<^verbatim>\<open>error instanceof MidiError\<close> is the case distinction on the constructor, and
  \<open>message_e\<close> is the field \<^verbatim>\<open>message\<close>.
\<close>

datatype exn = Error string | MidiError MidiErrorType string "exn option"

fun message_e :: "exn \<Rightarrow> string" where
  "message_e (Error text) = text"
| "message_e (MidiError type text originalError) = text"

fun instanceofMidiError :: "exn \<Rightarrow> bool" where
  "instanceofMidiError (Error text) = False"
| "instanceofMidiError (MidiError type text originalError) = True"

text \<open>The events of \<^verbatim>\<open>MidiManagerEvents\<close> and \<^verbatim>\<open>DeviceDetectorEvents\<close>, with their payloads.\<close>

datatype Event =
  Message MidiMessage
  | DeviceConnected MidiDevice
  | DeviceDisconnected MidiDevice
  | DevicesChanged "MidiDevice list"
  | DeviceAdded MidiDevice
  | DeviceRemoved MidiDevice
  | ErrorEvent exn

datatype EventName =
  Name_message | Name_deviceConnected | Name_deviceDisconnected | Name_devicesChanged
  | Name_deviceAdded | Name_deviceRemoved | Name_error

fun eventName :: "Event \<Rightarrow> EventName" where
  "eventName (Message m) = Name_message"
| "eventName (DeviceConnected device) = Name_deviceConnected"
| "eventName (DeviceDisconnected device) = Name_deviceDisconnected"
| "eventName (DevicesChanged devices) = Name_devicesChanged"
| "eventName (DeviceAdded device) = Name_deviceAdded"
| "eventName (DeviceRemoved device) = Name_deviceRemoved"
| "eventName (ErrorEvent err) = Name_error"

text \<open>
  Both classes extend Node's \<^verbatim>\<open>EventEmitter\<close>. A listener is a callback of the caller; the
  model keeps of it what the emitting code can see: called with an event, it returns
  (\<open>None\<close>) or throws a value. What else a listener does, to objects of its own, is not
  part of the state; it is taken not to call the manager or the detector itself.

  Of an emitter the model keeps the listeners registered for each event name, in the
  order of registration, and the events passed to \<^verbatim>\<open>emit\<close> so far. \<^verbatim>\<open>emit\<close> calls the
  listeners of the event in order and synchronously; the first one that throws ends the
  call, and what it threw leaves \<^verbatim>\<open>emit\<close>. An \<^verbatim>\<open>'error'\<close> event for which no listener is
  registered is thrown by \<^verbatim>\<open>emit\<close> itself. The first component of the result is the value
  thrown, if any.
\<close>

type_synonym Listener = "Event \<Rightarrow> exn option"

record EventEmitter =
  listeners :: "EventName \<Rightarrow> Listener list"
  emitted :: "Event list"

definition addListener ::
    "EventName \<Rightarrow> Listener \<Rightarrow> 'a EventEmitter_scheme \<Rightarrow> 'a EventEmitter_scheme" where
  "addListener name listener self =
     self\<lparr>listeners := (listeners self)(name := listeners self name @ [listener])\<rparr>"

fun callListeners :: "Listener list \<Rightarrow> Event \<Rightarrow> exn option" where
  "callListeners [] event = None"
| "callListeners (listener # rest) event =
     (case listener event of
        Some thrown \<Rightarrow> Some thrown
      | None \<Rightarrow> callListeners rest event)"

definition emit :: "Event \<Rightarrow> 'a EventEmitter_scheme \<Rightarrow> exn option \<times> 'a EventEmitter_scheme" where
  "emit event self =
    (let self' = self\<lparr>emitted := emitted self @ [event]\<rparr> in
     case event of
       ErrorEvent err \<Rightarrow>
         (if listeners self Name_error = [] then (Some err, self')
          else (callListeners (listeners self Name_error) event, self'))
     | _ \<Rightarrow> (callListeners (listeners self (eventName event)) event, self'))"

text \<open>\<^verbatim>\<open>forEach\<close> over a list with an \<^verbatim>\<open>emit\<close> in its body: a throw ends the loop.\<close>

fun emitEach ::
    "('b \<Rightarrow> Event) \<Rightarrow> 'b list \<Rightarrow> 'a EventEmitter_scheme
      \<Rightarrow> exn option \<times> 'a EventEmitter_scheme" where
  "emitEach event [] self = (None, self)"
| "emitEach event (x # xs) self =
     (case emit (event x) self of
        (Some thrown, self') \<Rightarrow> (Some thrown, self')
      | (None, self') \<Rightarrow> emitEach event xs self')"

text \<open>No listener of the emitter ever throws.\<close>

definition returnsNormally :: "'a EventEmitter_scheme \<Rightarrow> bool" where
  "returnsNormally self \<longleftrightarrow>
     (\<forall>name. \<forall>listener \<in> set (listeners self name). \<forall>event. listener event = None)"

section \<open>The environment and the state of the system\<close>

text \<open>
  The \<^verbatim>\<open>midi\<close> package and two string methods of the platform are the environment. Their
  answers are parameters of the model:
  \<^item> \<open>listPorts n\<close> is the outcome of the \<open>n\<close>-th enumeration (\<^verbatim>\<open>new midi.Input()\<close>,
    \<^verbatim>\<open>getPortCount()\<close>, \<^verbatim>\<open>getPortName(i)\<close> for every port, \<^verbatim>\<open>closePort()\<close>): the port names
    in order, or the error thrown on the way;
  \<^item> \<open>createInput n\<close> is the error thrown by the \<open>n\<close>-th \<^verbatim>\<open>new midi.Input()\<close> of
    \<^verbatim>\<open>connectToDevice\<close>, if it throws;
  \<^item> \<open>openPort t\<close> is the error thrown by \<^verbatim>\<open>openPort(parseInt(t))\<close>, if it throws;
  \<^item> \<open>closePort h\<close> is the error thrown by \<^verbatim>\<open>closePort()\<close> on the input \<open>h\<close>, if it throws;
  \<^item> \<open>replaceWhiteSpace s\<close> is \<^verbatim>\<open>s.replace(/\s+/g, '-')\<close> and \<open>toLowerCase s\<close> is
    \<^verbatim>\<open>s.toLowerCase()\<close>: both follow the Unicode tables of the platform.
  A string is the list of the bytes of its UTF-8 form; concatenation, equality, the text
  before the first \<^verbatim>\<open>-\<close> and the search for an ASCII word are the same on the bytes.
\<close>

record Environment =
  listPorts :: "nat \<Rightarrow> exn + string list"
  createInput :: "nat \<Rightarrow> exn option"
  openPort :: "string \<Rightarrow> exn option"
  closePort :: "nat \<Rightarrow> exn option"
  replaceWhiteSpace :: "string \<Rightarrow> string"
  toLowerCase :: "string \<Rightarrow> string"

text \<open>
  \<^verbatim>\<open>class MidiManager extends EventEmitter\<close>. An input object is named by its number of
  creation.
\<close>

record MidiManager = EventEmitter +
  input :: "nat option"
  connectedDevice :: "MidiDevice option"
  isListening :: bool

text \<open>
  \<^verbatim>\<open>class DeviceDetector extends EventEmitter\<close>. Its field \<^verbatim>\<open>midiManager\<close> refers to the one
  manager of the system below. A timer is named by its number of creation.
\<close>

record DeviceDetector = EventEmitter +
  lastKnownDevices :: "MidiDevice list"
  monitoringInterval :: "nat option"
  isMonitoring :: bool

text \<open>
  The whole state: the two objects; the interval timers that are active (handle and
  period); the passes of \<^verbatim>\<open>detectAndCompareDevices\<close> that wait at their \<^verbatim>\<open>await\<close>, each with
  the outcome of its enumeration, in the order in which they will go on; and counters
  of the enumerations made, the inputs created and the timers created.
\<close>

record System =
  manager :: MidiManager
  detector :: DeviceDetector
  timers :: "(nat \<times> nat) list"
  timersCreated :: nat
  pending :: "(exn + MidiDevice list) list"
  enumerations :: nat
  inputsCreated :: nat

section \<open>MidiManager: detectDevices, disconnect, connectToDevice\<close>

text \<open>The decimal digits of \<^verbatim>\<open>${i}\<close>.\<close>

function toString :: "nat \<Rightarrow> string" where
  "toString n =
     (if n < 10 then [char_of (48 + n)]
      else toString (n div 10) @ [char_of (48 + n mod 10)])"
  by pat_completeness auto
termination
  by (relation "measure (\<lambda>n. n)") auto

declare toString.simps [simp del]

text \<open>The device id \<^verbatim>\<open>`${i}-${portName.replace(/\s+/g, '-').toLowerCase()}`\<close>.\<close>

definition deviceIdOf :: "Environment \<Rightarrow> nat \<Rightarrow> string \<Rightarrow> string" where
  "deviceIdOf env i portName =
     toString i @ ''-'' @ toLowerCase env (replaceWhiteSpace env portName)"

text \<open>
  \<^verbatim>\<open>detectDevices\<close>: the result is the list of devices, or the \<^verbatim>\<open>MidiError\<close> thrown. The
  error is emitted on the manager first; if that call throws, what it throws leaves
  the function instead.
\<close>

definition detectDevices :: "Environment \<Rightarrow> System \<Rightarrow> (exn + MidiDevice list) \<times> System" where
  "detectDevices env sys =
    (let sys1 = sys\<lparr>enumerations := enumerations sys + 1\<rparr> in
     case listPorts env (enumerations sys) of
       Inr portNames \<Rightarrow>
         (Inr (map (\<lambda>(i, portName).
                 \<lparr>id_d = deviceIdOf env i portName, name_d = portName, manufacturer_d = None,
                  connected_d = False\<rparr>) (enumerate 0 portNames)),
          sys1)
     | Inl error \<Rightarrow>
         (let midiError = MidiError UNKNOWN_ERROR ''Failed to detect MIDI devices'' (Some error) in
          case emit (ErrorEvent midiError) (manager sys1) of
            (Some thrown, self) \<Rightarrow> (Inl thrown, sys1\<lparr>manager := self\<rparr>)
          | (None, self) \<Rightarrow> (Inl midiError, sys1\<lparr>manager := self\<rparr>)))"

text \<open>
  The \<^verbatim>\<open>try\<close> block of \<^verbatim>\<open>disconnect\<close>: the value it throws, if any, and the state at that
  point. \<^verbatim>\<open>this.connectedDevice.connected = false\<close> writes the stored device before the
  event is emitted.
\<close>

definition disconnect_try :: "Environment \<Rightarrow> MidiManager \<Rightarrow> exn option \<times> MidiManager" where
  "disconnect_try env self =
    (case (case input self of Some h \<Rightarrow> closePort env h | None \<Rightarrow> None) of
       Some error \<Rightarrow> (Some error, self)
     | None \<Rightarrow>
         (let self1 = self\<lparr>input := None\<rparr> in
          case connectedDevice self1 of
            None \<Rightarrow> (None, self1\<lparr>isListening := False\<rparr>)
          | Some device \<Rightarrow>
              (let self2 = self1\<lparr>connectedDevice := Some (device\<lparr>connected_d := False\<rparr>)\<rparr> in
               case emit (DeviceDisconnected (device\<lparr>connected_d := False\<rparr>)) self2 of
                 (Some thrown, self3) \<Rightarrow> (Some thrown, self3)
               | (None, self3) \<Rightarrow>
                   (None, self3\<lparr>connectedDevice := None, isListening := False\<rparr>))))"

text \<open>
  \<^verbatim>\<open>disconnect\<close>: the handler wraps what the block threw and emits it. The result carries
  the value thrown out of \<^verbatim>\<open>disconnect\<close>, which can only come from that \<^verbatim>\<open>emit\<close>.
\<close>

definition disconnect :: "Environment \<Rightarrow> MidiManager \<Rightarrow> exn option \<times> MidiManager" where
  "disconnect env self =
    (case disconnect_try env self of
       (None, self1) \<Rightarrow> (None, self1)
     | (Some error, self1) \<Rightarrow>
         emit (ErrorEvent (MidiError UNKNOWN_ERROR ''Error during MIDI device disconnection''
                 (Some error))) self1)"

text \<open>\<^verbatim>\<open>String.prototype.includes\<close>, written \<open>includes_str\<close>.\<close>

fun startsWith :: "string \<Rightarrow> string \<Rightarrow> bool" where
  "startsWith s [] = True"
| "startsWith [] (p # ps) = False"
| "startsWith (c # cs) (p # ps) = (c = p \<and> startsWith cs ps)"

fun includes_str :: "string \<Rightarrow> string \<Rightarrow> bool" where
  "includes_str [] p = startsWith [] p"
| "includes_str (c # cs) p = (startsWith (c # cs) p \<or> includes_str cs p)"

text \<open>The handler around \<^verbatim>\<open>openPort\<close>: the error it rethrows, chosen by the message.\<close>

definition openPortError :: "Environment \<Rightarrow> MidiDevice \<Rightarrow> exn \<Rightarrow> exn" where
  "openPortError env targetDevice error =
    (let errorMessage = toLowerCase env (message_e error) in
     if includes_str errorMessage ''permission'' \<or> includes_str errorMessage ''access'' then
       MidiError PERMISSION_DENIED
         (''Permission denied accessing MIDI device '' @ [CHR 0x27] @ name_d targetDevice
            @ [CHR 0x27] @ ''. Please check system MIDI permissions.'')
         (Some error)
     else if includes_str errorMessage ''busy'' \<or> includes_str errorMessage ''use'' then
       MidiError DEVICE_BUSY
         (''MIDI device '' @ [CHR 0x27] @ name_d targetDevice @ [CHR 0x27]
            @ '' is busy or in use by another application.'')
         (Some error)
     else
       MidiError CONNECTION_FAILED
         (''Failed to connect to MIDI device '' @ [CHR 0x27] @ name_d targetDevice
            @ [CHR 0x27] @ '': '' @ message_e error)
         (Some error))"

text \<open>
  The \<^verbatim>\<open>try\<close> block of \<^verbatim>\<open>connectToDevice\<close>: the value it throws, if any, and the state at
  that point. \<^verbatim>\<open>deviceId.split('-')[0]\<close> is the text before the first \<^verbatim>\<open>-\<close>. Registering
  the message handler on the new input changes nothing of the state kept here. The call
  is followed to its end, with nothing else running at its two \<^verbatim>\<open>await\<close>s.
\<close>

definition connectToDevice_try :: "Environment \<Rightarrow> string \<Rightarrow> System \<Rightarrow> exn option \<times> System" where
  "connectToDevice_try env deviceId sys =
    (case (case connectedDevice (manager sys) of
             Some device \<Rightarrow> disconnect env (manager sys)
           | None \<Rightarrow> (None, manager sys)) of
       (Some thrown, self) \<Rightarrow> (Some thrown, sys\<lparr>manager := self\<rparr>)
     | (None, self) \<Rightarrow>
        (case detectDevices env (sys\<lparr>manager := self\<rparr>) of
           (Inl thrown, sys1) \<Rightarrow> (Some thrown, sys1)
         | (Inr availableDevices, sys1) \<Rightarrow>
            (case find (\<lambda>device. id_d device = deviceId) availableDevices of
               None \<Rightarrow>
                 (Some (MidiError DEVICE_NOT_FOUND
                    (''MIDI device with ID '' @ [CHR 0x27] @ deviceId @ [CHR 0x27]
                       @ '' not found'') None),
                  sys1)
             | Some targetDevice \<Rightarrow>
                 (let portIndex = takeWhile (\<lambda>c. c \<noteq> CHR ''-'') deviceId in
                  case createInput env (inputsCreated sys1) of
                    Some thrown \<Rightarrow> (Some thrown, sys1)
                  | None \<Rightarrow>
                     (let sys2 = sys1\<lparr>inputsCreated := inputsCreated sys1 + 1,
                                      manager := (manager sys1)
                                        \<lparr>input := Some (inputsCreated sys1)\<rparr>\<rparr> in
                      case openPort env portIndex of
                        Some error \<Rightarrow> (Some (openPortError env targetDevice error), sys2)
                      | None \<Rightarrow>
                         (let device = targetDevice\<lparr>connected_d := True\<rparr>;
                              self2 = (manager sys2)
                                \<lparr>connectedDevice := Some device, isListening := True\<rparr>
                          in case emit (DeviceConnected device) self2 of
                               (Some thrown, self3) \<Rightarrow> (Some thrown, sys2\<lparr>manager := self3\<rparr>)
                             | (None, self3) \<Rightarrow> (None, sys2\<lparr>manager := self3\<rparr>)))))))"

text \<open>
  \<^verbatim>\<open>connectToDevice\<close>: the \<^verbatim>\<open>try\<close> block and its handler. The result is the error with
  which the promise is rejected, or \<open>None\<close> when it is fulfilled. In the handler a failing
  \<^verbatim>\<open>closePort\<close> is ignored, as the source does.
\<close>

definition connectToDevice :: "Environment \<Rightarrow> string \<Rightarrow> System \<Rightarrow> exn option \<times> System" where
  "connectToDevice env deviceId sys =
    (case connectToDevice_try env deviceId sys of
       (None, sys1) \<Rightarrow> (None, sys1)
     | (Some error, sys1) \<Rightarrow>
        (let self1 = (case input (manager sys1) of
                        Some h \<Rightarrow> (manager sys1)\<lparr>input := None\<rparr>
                      | None \<Rightarrow> manager sys1);
             midiError = (if instanceofMidiError error then error
                          else MidiError CONNECTION_FAILED ''Failed to connect to MIDI device''
                                 (Some error))
         in case emit (ErrorEvent midiError) self1 of
              (Some thrown, self2) \<Rightarrow> (Some thrown, sys1\<lparr>manager := self2\<rparr>)
            | (None, self2) \<Rightarrow> (Some midiError, sys1\<lparr>manager := self2\<rparr>)))"

section \<open>DeviceDetector\<close>

text \<open>
  \<^verbatim>\<open>detectAndCompareDevices\<close> is an \<^verbatim>\<open>async\<close> function with one \<^verbatim>\<open>await\<close>. A call runs it up
  to there, which makes the enumeration, and returns; the pass then waits with the
  outcome of the enumeration.
\<close>

definition detectAndCompareDevices_start :: "Environment \<Rightarrow> System \<Rightarrow> System" where
  "detectAndCompareDevices_start env sys =
    (case detectDevices env sys of
       (outcome, sys1) \<Rightarrow> sys1\<lparr>pending := pending sys1 @ [outcome]\<rparr>)"

text \<open>
  The handler of its \<^verbatim>\<open>try\<close> block. The result is the list the promise resolves to, or
  the error it is rejected with.
\<close>

definition detectAndCompareDevices_catch ::
    "exn \<Rightarrow> System \<Rightarrow> (exn + MidiDevice list) \<times> System" where
  "detectAndCompareDevices_catch error sys =
    (let midiError = (if instanceofMidiError error then error
                      else MidiError UNKNOWN_ERROR ''Failed to detect device changes''
                             (Some error))
     in case emit (ErrorEvent midiError) (detector sys) of
          (Some thrown, self) \<Rightarrow> (Inl thrown, sys\<lparr>detector := self\<rparr>)
        | (None, self) \<Rightarrow> (Inr (lastKnownDevices self), sys\<lparr>detector := self\<rparr>))"

text \<open>
  The pass from its \<^verbatim>\<open>await\<close> on, given the outcome of the enumeration. It runs to its
  end without interruption. Whatever is thrown in the block, by the enumeration or by a
  listener, goes to the handler.
\<close>

definition detectAndCompareDevices_resume ::
    "(exn + MidiDevice list) \<Rightarrow> System \<Rightarrow> (exn + MidiDevice list) \<times> System" where
  "detectAndCompareDevices_resume outcome sys =
    (case outcome of
       Inl error \<Rightarrow> detectAndCompareDevices_catch error sys
     | Inr currentDevices \<Rightarrow>
         (let self = detector sys;
              changes = compareDeviceLists (lastKnownDevices self) currentDevices
          in case (if length (added changes) > 0 \<or> length (removed changes) > 0 then
                     (case emit (DevicesChanged currentDevices) self of
                        (Some thrown, self1) \<Rightarrow> (Some thrown, self1)
                      | (None, self1) \<Rightarrow>
                         (case emitEach DeviceAdded (added changes) self1 of
                            (Some thrown, self2) \<Rightarrow> (Some thrown, self2)
                          | (None, self2) \<Rightarrow> emitEach DeviceRemoved (removed changes) self2))
                   else (None, self)) of
               (Some error, self3) \<Rightarrow>
                 detectAndCompareDevices_catch error (sys\<lparr>detector := self3\<rparr>)
             | (None, self3) \<Rightarrow>
                 (Inr currentDevices,
                  sys\<lparr>detector := self3\<lparr>lastKnownDevices := currentDevices\<rparr>\<rparr>)))"

text \<open>
  A whole pass, for a caller that awaits it while no other pass is waiting: this is
  \<^verbatim>\<open>refreshDevices\<close>.
\<close>

definition detectAndCompareDevices ::
    "Environment \<Rightarrow> System \<Rightarrow> (exn + MidiDevice list) \<times> System" where
  "detectAndCompareDevices env sys =
    (case detectDevices env sys of
       (outcome, sys1) \<Rightarrow> detectAndCompareDevices_resume outcome sys1)"

definition refreshDevices :: "Environment \<Rightarrow> System \<Rightarrow> (exn + MidiDevice list) \<times> System" where
  "refreshDevices env sys = detectAndCompareDevices env sys"

text \<open>
  \<^verbatim>\<open>startMonitoring\<close> starts the initial pass and drops its promise; \<^verbatim>\<open>setInterval\<close> adds a
  timer, whose callback starts a pass too. \<^verbatim>\<open>stopMonitoring\<close>: \<^verbatim>\<open>clearInterval\<close> removes
  the timer. \<open>resumePending\<close> is the step of the event loop that lets the pass that has
  waited longest go on; its promise is one that nobody awaits.
\<close>

definition startMonitoring :: "Environment \<Rightarrow> nat \<Rightarrow> System \<Rightarrow> System" where
  "startMonitoring env intervalMs sys =
    (if isMonitoring (detector sys) then sys
     else
       let sys1 = sys\<lparr>detector := (detector sys)\<lparr>isMonitoring := True\<rparr>\<rparr>;
           sys2 = detectAndCompareDevices_start env sys1;
           handle = timersCreated sys2
       in sys2\<lparr>timers := timers sys2 @ [(handle, intervalMs)],
                timersCreated := handle + 1,
                detector := (detector sys2)\<lparr>monitoringInterval := Some handle\<rparr>\<rparr>)"

definition timerCallback :: "Environment \<Rightarrow> System \<Rightarrow> System" where
  "timerCallback env sys = detectAndCompareDevices_start env sys"

definition resumePending :: "System \<Rightarrow> System" where
  "resumePending sys =
    (case pending sys of
       [] \<Rightarrow> sys
     | outcome # rest \<Rightarrow> snd (detectAndCompareDevices_resume outcome (sys\<lparr>pending := rest\<rparr>)))"

definition stopMonitoring :: "System \<Rightarrow> System" where
  "stopMonitoring sys =
    (if \<not> isMonitoring (detector sys) then sys
     else
       let sys1 = sys\<lparr>detector := (detector sys)\<lparr>isMonitoring := False\<rparr>\<rparr> in
       case monitoringInterval (detector sys1) of
         Some handle \<Rightarrow>
           sys1\<lparr>timers := filter (\<lambda>(h, ms). h \<noteq> handle) (timers sys1),
                 detector := (detector sys1)\<lparr>monitoringInterval := None\<rparr>\<rparr>
       | None \<Rightarrow> sys1)"

definition isCurrentlyMonitoring :: "System \<Rightarrow> bool" where
  "isCurrentlyMonitoring sys = isMonitoring (detector sys)"

section \<open>The copy made by getLastKnownDevices\<close>

text \<open>
  \<^verbatim>\<open>getLastKnownDevices\<close> returns \<^verbatim>\<open>[...this.lastKnownDevices]\<close>: a new array that holds the
  same device objects. What a caller can reach through it depends on this sharing, so
  here arrays and devices live in a store: a reference is an index, an array is the list
  of the references of its elements, and \<open>lastKnown\<close> is the reference in
  \<^verbatim>\<open>this.lastKnownDevices\<close>. \<open>readDevices\<close> gives the list of device values an array stands
  for; for the array of the detector this is the \<open>lastKnownDevices\<close> of the sections
  above, the list the next poll diffs against.
\<close>

type_synonym ref = nat

record Heap =
  arrays :: "ref list list"
  objects :: "MidiDevice list"

definition readDevices :: "Heap \<Rightarrow> ref \<Rightarrow> MidiDevice list" where
  "readDevices heap array = map (\<lambda>r. objects heap ! r) (arrays heap ! array)"

definition getLastKnownDevices :: "ref \<Rightarrow> Heap \<Rightarrow> ref \<times> Heap" where
  "getLastKnownDevices lastKnown heap =
    (length (arrays heap),
     heap\<lparr>arrays := arrays heap @ [arrays heap ! lastKnown]\<rparr>)"

text \<open>
  What a caller does through the returned array. \<open>ArrayWrite\<close> gives the array new
  contents: every operation on the array itself (assigning an index or the length,
  \<^verbatim>\<open>push\<close>, \<^verbatim>\<open>pop\<close>, \<^verbatim>\<open>splice\<close>, \<^verbatim>\<open>sort\<close>) is of this kind. The others assign a field of
  the element at an index, as in \<^verbatim>\<open>returned[i].id = s\<close>; beyond the end of the array the
  assignment throws and nothing changes.
\<close>

datatype Mutation =
  ArrayWrite "ref list"
  | SetId nat string
  | SetName nat string
  | SetConnected nat bool

definition writeElement :: "ref \<Rightarrow> nat \<Rightarrow> (MidiDevice \<Rightarrow> MidiDevice) \<Rightarrow> Heap \<Rightarrow> Heap" where
  "writeElement array i update heap =
    (if i < length (arrays heap ! array)
     then heap\<lparr>objects := (objects heap)
            [arrays heap ! array ! i := update (objects heap ! (arrays heap ! array ! i))]\<rparr>
     else heap)"

fun mutate :: "ref \<Rightarrow> Mutation \<Rightarrow> Heap \<Rightarrow> Heap" where
  "mutate array (ArrayWrite contents) heap =
     heap\<lparr>arrays := (arrays heap)[array := contents]\<rparr>"
| "mutate array (SetId i s) heap = writeElement array i (\<lambda>device. device\<lparr>id_d := s\<rparr>) heap"
| "mutate array (SetName i s) heap = writeElement array i (\<lambda>device. device\<lparr>name_d := s\<rparr>) heap"
| "mutate array (SetConnected i b) heap =
     writeElement array i (\<lambda>device. device\<lparr>connected_d := b\<rparr>) heap"

definition example_heap :: Heap where
  "example_heap =
    \<lparr>arrays = [[0]],
     objects = [\<lparr>id_d = ''0-a'', name_d = ''A'', manufacturer_d = None, connected_d = False\<rparr>]\<rparr>"

section \<open>Example states\<close>

text \<open>
  The two string methods on ASCII text, where they agree with the platform: the six
  ASCII white-space characters, and the capitals \<^verbatim>\<open>A\<close> to \<^verbatim>\<open>Z\<close>.
\<close>

definition asciiWhiteSpace :: "char \<Rightarrow> bool" where
  "asciiWhiteSpace c \<longleftrightarrow> c \<in> {CHR '' '', CHR 0x09, CHR 0x0A, CHR 0x0B, CHR 0x0C, CHR 0x0D}"

fun asciiReplaceWhiteSpace :: "bool \<Rightarrow> string \<Rightarrow> string" where
  "asciiReplaceWhiteSpace inRun [] = []"
| "asciiReplaceWhiteSpace inRun (c # cs) =
     (if asciiWhiteSpace c
      then (if inRun then asciiReplaceWhiteSpace True cs
            else CHR ''-'' # asciiReplaceWhiteSpace True cs)
      else c # asciiReplaceWhiteSpace False cs)"

definition asciiToLowerCase :: "string \<Rightarrow> string" where
  "asciiToLowerCase s =
     map (\<lambda>c. if 65 \<le> (of_char c :: nat) \<and> (of_char c :: nat) \<le> 90
              then char_of (of_char c + 32 :: nat) else c) s"

text \<open>
  An environment every enumeration of which gives the same outcome, and so every
  \<^verbatim>\<open>openPort\<close> and every \<^verbatim>\<open>closePort\<close>; its port names and messages are ASCII text.
\<close>

definition example_environment ::
    "(exn + string list) \<Rightarrow> exn option \<Rightarrow> exn option \<Rightarrow> Environment" where
  "example_environment ports opening closing =
    \<lparr>listPorts = (\<lambda>n. ports), createInput = (\<lambda>n. None), openPort = (\<lambda>t. opening),
     closePort = (\<lambda>h. closing), replaceWhiteSpace = asciiReplaceWhiteSpace False,
     toLowerCase = asciiToLowerCase\<rparr>"

text \<open>A listener that returns, one that throws, and an emitter without listeners.\<close>

definition returning :: Listener where
  "returning event = None"

definition throwing :: Listener where
  "throwing event = Some (Error ''listener failed'')"

definition noListeners :: "EventName \<Rightarrow> Listener list" where
  "noListeners name = []"

text \<open>
  A manager as constructed, with a listener for \<^verbatim>\<open>'error'\<close>; a detector with given
  listeners that has already seen two devices; and the system of the two.
\<close>

definition example_manager :: MidiManager where
  "example_manager =
    addListener Name_error returning
      \<lparr>listeners = noListeners, emitted = [], input = None, connectedDevice = None,
       isListening = False\<rparr>"

definition example_detector :: "(EventName \<Rightarrow> Listener list) \<Rightarrow> DeviceDetector" where
  "example_detector registered =
    \<lparr>listeners = registered, emitted = [],
     lastKnownDevices =
       [\<lparr>id_d = ''0-a'', name_d = ''A'', manufacturer_d = None, connected_d = False\<rparr>,
        \<lparr>id_d = ''1-b'', name_d = ''B'', manufacturer_d = None, connected_d = False\<rparr>],
     monitoringInterval = None, isMonitoring = False\<rparr>"

definition example_system :: "(EventName \<Rightarrow> Listener list) \<Rightarrow> System" where
  "example_system registered =
    \<lparr>manager = example_manager, detector = example_detector registered, timers = [],
     timersCreated = 0, pending = [], enumerations = 0, inputsCreated = 0\<rparr>"

text \<open>
  A system whose manager, with given listeners, is connected to the device \<open>0-a\<close>
  through the input 0.
\<close>

definition example_connected_system :: "(EventName \<Rightarrow> Listener list) \<Rightarrow> System" where
  "example_connected_system registered =
    \<lparr>manager =
       \<lparr>listeners = registered, emitted = [], input = Some 0,
        connectedDevice =
          Some \<lparr>id_d = ''0-a'', name_d = ''A'', manufacturer_d = None, connected_d = True\<rparr>,
        isListening = True\<rparr>,
     detector = example_detector noListeners, timers = [], timersCreated = 0, pending = [],
     enumerations = 1, inputsCreated = 1\<rparr>"

section \<open>Properties of the number operations\<close>

lemma floor_rat_numeral [simp]:
  "\<lfloor>numeral a / numeral b :: rat\<rfloor> = numeral a div numeral b"
  using floor_divide_of_int_eq [of "numeral a" "numeral b", where ?'a = rat] by simp

lemma truncate_of_int [simp]: "truncate_toward_zero (of_int k) = k"
  by (simp add: truncate_toward_zero_def)

lemma truncate_numeral [simp]: "truncate_toward_zero (numeral n) = numeral n"
  using truncate_of_int [of "numeral n"] by simp

text \<open>
  Masking after ToInt32 reads the low byte of the truncated value: \<^verbatim>\<open>x & 0x0F\<close> is the low
  nibble and \<^verbatim>\<open>x & 0xF0\<close> is sixteen times the high nibble. For a byte \<open>k\<close> these are
  \<open>k mod 16\<close> and \<open>16 * (k div 16)\<close>, so \<^verbatim>\<open>k & 0xF0 === 0x90\<close> says that the top nibble of
  \<open>k\<close> is 9.
\<close>

lemma and15: "signed_take_bit 31 (k::int) AND 15 = k mod 16"
proof -
  have "signed_take_bit 31 k AND 15 = take_bit 4 (signed_take_bit 31 k)"
    by (simp add: take_bit_eq_mask mask_eq_exp_minus_1)
  also have "\<dots> = take_bit 4 k"
    by (simp add: take_bit_signed_take_bit)
  finally show ?thesis by (simp add: take_bit_eq_mod)
qed

lemma and240: "signed_take_bit 31 (k::int) AND 240 = 16 * ((k div 16) mod 16)"
proof -
  have m: "(240::int) = push_bit 4 (mask 4)" by (simp add: mask_eq_exp_minus_1 push_bit_eq_mult)
  have "signed_take_bit 31 k AND 240 = push_bit 4 (take_bit 4 (drop_bit 4 (signed_take_bit 31 k)))"
    unfolding m
    by (rule bit_eqI) (auto simp add: bit_simps)
  also have "take_bit 4 (drop_bit 4 (signed_take_bit 31 k)) = take_bit 4 (drop_bit 4 k)"
    by (rule bit_eqI) (auto simp add: bit_simps min_def)
  finally show ?thesis
    by (simp add: take_bit_eq_mod push_bit_eq_mult drop_bit_eq_div)
qed

lemma bitand_15 : "bitand (Finite q) (Finite 15) = truncate_toward_zero q mod 16"
  using and15 [of "truncate_toward_zero q"] by (simp add: bitand_def)

lemma bitand_240 : "bitand (Finite q) (Finite 240) = 16 * ((truncate_toward_zero q div 16) mod 16)"
  using and240 [of "truncate_toward_zero q"] by (simp add: bitand_def)

lemma status_byte_nibbles:
  assumes "0 \<le> k" and "k < 256"
  shows "bitand (Num k) (Num 240) = 16 * (k div 16)" and "bitand (Num k) (Num 15) = k mod 16"
proof -
  have "k div 16 < 16" using assms by simp
  moreover have "0 \<le> k div 16" using assms by simp
  ultimately show "bitand (Num k) (Num 240) = 16 * (k div 16)"
    by (simp add: bitand_240)
  show "bitand (Num k) (Num 15) = k mod 16"
    by (simp add: bitand_15)
qed

lemma bitand_15_range: "0 \<le> bitand s (Num 15) \<and> bitand s (Num 15) \<le> 15"
  by (cases s) (simp_all add: bitand_15, simp_all add: bitand_def)

text \<open>
  The three validators of the data fields accept exactly the integers from 0 to 127:
  fractions, negative numbers, numbers above 127, NaN and the infinities all fail.
\<close>

lemma isValidMidiNote_iff: "isValidMidiNote x \<longleftrightarrow> x \<in> Num ` {0..127}"
  by (cases x; simp add: isValidMidiNote_def le_number_def MIN_NOTE_def MAX_NOTE_def image_iff) force
lemma isValidMidiVelocity_iff: "isValidMidiVelocity x \<longleftrightarrow> x \<in> Num ` {0..127}"
  by (cases x; simp add: isValidMidiVelocity_def le_number_def MIN_VELOCITY_def MAX_VELOCITY_def image_iff) force
lemma isValidMidiController_iff: "isValidMidiController x \<longleftrightarrow> x \<in> Num ` {0..127}"
  by (cases x; simp add: isValidMidiController_def le_number_def MIN_CONTROLLER_def MAX_CONTROLLER_def image_iff) force

lemma isValidMidiChannel_nibble: "isValidMidiChannel (Num (bitand s (Num 15) + 1))"
  using bitand_15_range[of s]
  by (simp add: isValidMidiChannel_def le_number_def MIN_CHANNEL_def MAX_CHANNEL_def)

lemma isValidMidiChannel_nibble_simp [simp]:
  "isValidMidiChannel (Finite (rat_of_int (bitand s (Finite 15)) + 1))"
  using isValidMidiChannel_nibble [of s] by simp

section \<open>Properties of the decoder\<close>

lemmas status_defs = NOTE_ON_STATUS_def NOTE_OFF_STATUS_def CONTROL_CHANGE_STATUS_def PROGRAM_CHANGE_STATUS_def

text \<open>What the decoder returns, family by family.\<close>

lemma parse_short: "length message < 2 \<Longrightarrow> parseMidiMessage now message = None"
  by (simp add: parseMidiMessage_def)

lemma parse_note_on:
  "bitand statusByte (Num 240) = NOTE_ON_STATUS \<Longrightarrow>
   parseMidiMessage now (statusByte # note # velocity # rest) =
    (if note \<in> Num ` {0..127} \<and> velocity \<in> Num ` {0..127} then
       Some \<lparr>type_m = (if velocity = Num 0 then NOTE_OFF else NOTE_ON),
             channel_m = bitand statusByte (Num 15) + 1, note_m = Some note,
             velocity_m = Some velocity, controller_m = None, value_m = None,
             timestamp_m = now\<rparr>
     else None)"
  by (simp add: parseMidiMessage_def Let_def isValidMidiChannel_nibble
      isValidMidiNote_iff isValidMidiVelocity_iff NOTE_ON_ZERO_VELOCITY_IS_NOTE_OFF_def)

lemma parse_note_off:
  "bitand statusByte (Num 240) = NOTE_OFF_STATUS \<Longrightarrow>
   parseMidiMessage now (statusByte # note # velocity # rest) =
    (if note \<in> Num ` {0..127} \<and> velocity \<in> Num ` {0..127} then
       Some \<lparr>type_m = NOTE_OFF,
             channel_m = bitand statusByte (Num 15) + 1, note_m = Some note,
             velocity_m = Some velocity, controller_m = None, value_m = None,
             timestamp_m = now\<rparr>
     else None)"
  by (simp add: parseMidiMessage_def Let_def isValidMidiChannel_nibble
      isValidMidiNote_iff isValidMidiVelocity_iff status_defs)

lemma parse_control_change:
  "bitand statusByte (Num 240) = CONTROL_CHANGE_STATUS \<Longrightarrow>
   parseMidiMessage now (statusByte # controller # val # rest) =
    (if controller \<in> Num ` {0..127} \<and> val \<in> Num ` {0..127} then
       Some \<lparr>type_m = CONTROL_CHANGE,
             channel_m = bitand statusByte (Num 15) + 1, note_m = None,
             velocity_m = None, controller_m = Some controller, value_m = Some val,
             timestamp_m = now\<rparr>
     else None)"
  by (simp add: parseMidiMessage_def Let_def isValidMidiChannel_nibble
      isValidMidiController_iff isValidMidiVelocity_iff status_defs)

lemma parse_program_change:
  "bitand statusByte (Num 240) = PROGRAM_CHANGE_STATUS \<Longrightarrow>
   parseMidiMessage now (statusByte # val # rest) =
    (if val \<in> Num ` {0..127} then
       Some \<lparr>type_m = PROGRAM_CHANGE,
             channel_m = bitand statusByte (Num 15) + 1, note_m = None,
             velocity_m = None, controller_m = None, value_m = Some val,
             timestamp_m = now\<rparr>
     else None)"
  by (simp add: parseMidiMessage_def Let_def isValidMidiChannel_nibble
      isValidMidiVelocity_iff status_defs)

lemma parse_unsupported:
  "bitand statusByte (Num 240) \<notin>
     {NOTE_OFF_STATUS, NOTE_ON_STATUS, CONTROL_CHANGE_STATUS, PROGRAM_CHANGE_STATUS} \<Longrightarrow>
   parseMidiMessage now (statusByte # dataBytes) = None"
  by (simp add: parseMidiMessage_def Let_def)

lemma parse_too_few_data:
  "bitand statusByte (Num 240) \<in> {NOTE_OFF_STATUS, NOTE_ON_STATUS, CONTROL_CHANGE_STATUS} \<Longrightarrow>
   length dataBytes < 2 \<Longrightarrow> parseMidiMessage now (statusByte # dataBytes) = None"
  by (auto simp add: parseMidiMessage_def Let_def status_defs)



text \<open>
  Claim C1. A frame \<^verbatim>\<open>[statusByte, note, velocity]\<close> whose status byte has top nibble
  \<open>0x9\<close> (\<^verbatim>\<open>statusByte & 0xF0 === 0x90\<close>) and whose two data bytes are integers in
  \<open>[0, 127]\<close> decodes: to a NoteOff message with velocity 0 when the velocity is 0 and
  \<^verbatim>\<open>NOTE_ON_ZERO_VELOCITY_IS_NOTE_OFF\<close> is on, and to a NoteOn message with channel
  \<^verbatim>\<open>(statusByte & 0x0F) + 1\<close> and the frame's note and velocity when the velocity is
  positive.
\<close>

theorem parse_note_on_family:
  assumes "bitand statusByte (Num 240) = NOTE_ON_STATUS"
    and "0 \<le> n" and "n \<le> 127" and "0 \<le> v" and "v \<le> 127"
  shows "(v = 0 \<and> NOTE_ON_ZERO_VELOCITY_IS_NOTE_OFF \<longrightarrow>
            parseMidiMessage now [statusByte, Num n, Num v] =
              Some \<lparr>type_m = NOTE_OFF, channel_m = bitand statusByte (Num 15) + 1,
                    note_m = Some (Num n), velocity_m = Some (Num 0), controller_m = None,
                    value_m = None, timestamp_m = now\<rparr>)
       \<and> (0 < v \<longrightarrow>
            parseMidiMessage now [statusByte, Num n, Num v] =
              Some \<lparr>type_m = NOTE_ON, channel_m = bitand statusByte (Num 15) + 1,
                    note_m = Some (Num n), velocity_m = Some (Num v), controller_m = None,
                    value_m = None, timestamp_m = now\<rparr>)"
proof -
  have "Num n \<in> Num ` {0..127}" and "Num v \<in> Num ` {0..127}"
    using assms(2-5) by simp_all
  then show ?thesis
    using assms(1) by (simp add: parse_note_on)
qed

text \<open>The frames \<^verbatim>\<open>[0x94, 72, 0]\<close> and \<^verbatim>\<open>[0x90, 60, 100]\<close> of the test suite.\<close>

theorem parse_note_on_family_witness:
  "bitand (Num 148) (Num 240) = NOTE_ON_STATUS
   \<and> parseMidiMessage 1000 [Num 148, Num 72, Num 0] =
       Some \<lparr>type_m = NOTE_OFF, channel_m = 5, note_m = Some (Num 72),
             velocity_m = Some (Num 0), controller_m = None, value_m = None,
             timestamp_m = 1000\<rparr>
   \<and> parseMidiMessage 1000 [Num 144, Num 60, Num 100] =
       Some \<lparr>type_m = NOTE_ON, channel_m = 1, note_m = Some (Num 60),
             velocity_m = Some (Num 100), controller_m = None, value_m = None,
             timestamp_m = 1000\<rparr>"
  using parse_note_on_family [of "Num 148" 72 0 1000]
    parse_note_on_family [of "Num 144" 60 100 1000]
  by (simp add: bitand_240 bitand_15 NOTE_ON_STATUS_def NOTE_ON_ZERO_VELOCITY_IS_NOTE_OFF_def)

text \<open>
  Claim C2. The decoder returns \<^verbatim>\<open>null\<close> for a frame of fewer than 2 bytes, for a frame
  whose top nibble is none of \<open>0x8\<close>, \<open>0x9\<close>, \<open>0xB\<close>, \<open>0xC\<close>, and for a frame one of
  whose fields (note and velocity, controller and value, or the program value) is not an
  integer in \<open>[0, 127]\<close>. \<open>x \<notin> Num ` {0..127}\<close> says that \<open>x\<close> is out of range, fractional,
  NaN or infinite. The decoder is a total function into \<open>MidiMessage option\<close>: none of
  the operations it is made of can throw, so \<open>None\<close> is the only outcome besides a message.
\<close>

theorem parse_not_decodable:
  "(length message < 2 \<longrightarrow> parseMidiMessage now message = None)
   \<and> (bitand statusByte (Num 240) \<notin>
          {NOTE_OFF_STATUS, NOTE_ON_STATUS, CONTROL_CHANGE_STATUS, PROGRAM_CHANGE_STATUS}
        \<longrightarrow> parseMidiMessage now (statusByte # dataBytes) = None)
   \<and> (bitand statusByte (Num 240) \<in> {NOTE_OFF_STATUS, NOTE_ON_STATUS, CONTROL_CHANGE_STATUS}
        \<and> (a \<notin> Num ` {0..127} \<or> b \<notin> Num ` {0..127})
        \<longrightarrow> parseMidiMessage now (statusByte # a # b # rest) = None)
   \<and> (bitand statusByte (Num 240) = PROGRAM_CHANGE_STATUS \<and> a \<notin> Num ` {0..127}
        \<longrightarrow> parseMidiMessage now (statusByte # a # rest) = None)"
proof (intro conjI impI)
  assume "length message < 2"
  then show "parseMidiMessage now message = None" by (rule parse_short)
next
  assume "bitand statusByte (Num 240) \<notin>
    {NOTE_OFF_STATUS, NOTE_ON_STATUS, CONTROL_CHANGE_STATUS, PROGRAM_CHANGE_STATUS}"
  then show "parseMidiMessage now (statusByte # dataBytes) = None" by (rule parse_unsupported)
next
  assume h: "bitand statusByte (Num 240) \<in> {NOTE_OFF_STATUS, NOTE_ON_STATUS, CONTROL_CHANGE_STATUS}
    \<and> (a \<notin> Num ` {0..127} \<or> b \<notin> Num ` {0..127})"
  then consider "bitand statusByte (Num 240) = NOTE_OFF_STATUS"
    | "bitand statusByte (Num 240) = NOTE_ON_STATUS"
    | "bitand statusByte (Num 240) = CONTROL_CHANGE_STATUS" by blast
  then show "parseMidiMessage now (statusByte # a # b # rest) = None"
  proof cases
    case 1 with h show ?thesis by (auto simp add: parse_note_off)
  next
    case 2 with h show ?thesis by (auto simp add: parse_note_on)
  next
    case 3 with h show ?thesis by (auto simp add: parse_control_change)
  qed
next
  assume "bitand statusByte (Num 240) = PROGRAM_CHANGE_STATUS \<and> a \<notin> Num ` {0..127}"
  then show "parseMidiMessage now (statusByte # a # rest) = None"
    by (simp add: parse_program_change)
qed

text \<open>Frames of the test suite: too short, pitch bend, \<^verbatim>\<open>60.5\<close>, \<^verbatim>\<open>128\<close>, \<^verbatim>\<open>-1\<close>, and NaN.\<close>

lemma fraction_not_in_range: "Finite (121 / 2) \<notin> Num ` {0..127}"
proof
  assume "Finite (121 / 2) \<in> Num ` {0..127}"
  then have "isValidMidiNote (Finite (121 / 2))" by (simp only: isValidMidiNote_iff)
  then show False by (simp add: isValidMidiNote_def)
qed

lemma out_of_range_not_in_range: "Num 128 \<notin> Num ` {0..127}" "Num (- 1) \<notin> Num ` {0..127}" "NaN \<notin> Num ` {0..127}"
  by auto

theorem parse_not_decodable_witness:
  "parseMidiMessage 1000 [Num 144] = None
   \<and> parseMidiMessage 1000 [Num 224, Num 0, Num 64] = None
   \<and> parseMidiMessage 1000 [Num 144, Finite (121 / 2), Num 100] = None
   \<and> parseMidiMessage 1000 [Num 176, Num 7, Num 128] = None
   \<and> parseMidiMessage 1000 [Num 128, Num (- 1), Num 64] = None
   \<and> parseMidiMessage 1000 [Num 192, NaN] = None"
  using parse_not_decodable [of "[Num 144]" 1000 "Num 224" "[Num 0, Num 64]"]
    parse_not_decodable [of "[]" 1000 "Num 144" "[]" "Finite (121 / 2)" "Num 100" "[]"]
    parse_not_decodable [of "[]" 1000 "Num 176" "[]" "Num 7" "Num 128" "[]"]
    parse_not_decodable [of "[]" 1000 "Num 128" "[]" "Num (- 1)" "Num 64" "[]"]
    parse_not_decodable [of "[]" 1000 "Num 192" "[]" "NaN" "NaN" "[]"]
    fraction_not_in_range out_of_range_not_in_range
  by (simp add: bitand_240 status_defs)


lemma parse_ignores_rest:
  "parseMidiMessage now (statusByte # a # b # rest) = parseMidiMessage now [statusByte, a, b]"
  by (simp add: parseMidiMessage_def Let_def)

lemma parse_program_change_ignores_rest:
  "bitand statusByte (Num 240) = PROGRAM_CHANGE_STATUS \<Longrightarrow>
   parseMidiMessage now (statusByte # a # rest) = parseMidiMessage now [statusByte, a]"
  by (simp add: parse_program_change)



text \<open>
  Claim C7 asks for exactly 2 data bytes (exactly 1 for ProgramChange). The source checks
  \<^verbatim>\<open>dataBytes.length < 2\<close> (\<^verbatim>\<open>< 1\<close>) only: the NoteOn frame \<^verbatim>\<open>[0x90, 60, 100, 7]\<close> with
  three data bytes and the ProgramChange frame \<^verbatim>\<open>[0xC0, 42, 7]\<close> with two are decoded.
\<close>

theorem parse_accepts_extra_data_bytes:
  "bitand (Num 144) (Num 240) = NOTE_ON_STATUS
   \<and> length [Num 60, Num 100, Num 7] = 3
   \<and> parseMidiMessage 1000 (Num 144 # [Num 60, Num 100, Num 7]) =
       Some \<lparr>type_m = NOTE_ON, channel_m = 1, note_m = Some (Num 60),
             velocity_m = Some (Num 100), controller_m = None, value_m = None,
             timestamp_m = 1000\<rparr>
   \<and> bitand (Num 192) (Num 240) = PROGRAM_CHANGE_STATUS
   \<and> length [Num 42, Num 7] = 2
   \<and> parseMidiMessage 1000 (Num 192 # [Num 42, Num 7]) =
       Some \<lparr>type_m = PROGRAM_CHANGE, channel_m = 1, note_m = None,
             velocity_m = None, controller_m = None, value_m = Some (Num 42),
             timestamp_m = 1000\<rparr>"
  by (simp add: parse_note_on parse_program_change bitand_240 bitand_15 status_defs)

text \<open>
  Claim C7, amended. A NoteOn, NoteOff or ControlChange frame is decoded only if it
  carries at least 2 data bytes and a ProgramChange frame only if it carries at least 1;
  data bytes after the ones the family reads are ignored.
\<close>

theorem parse_data_byte_count:
  "(bitand statusByte (Num 240) \<in> {NOTE_OFF_STATUS, NOTE_ON_STATUS, CONTROL_CHANGE_STATUS}
      \<and> parseMidiMessage now (statusByte # dataBytes) \<noteq> None \<longrightarrow> 2 \<le> length dataBytes)
   \<and> (bitand statusByte (Num 240) = PROGRAM_CHANGE_STATUS
      \<and> parseMidiMessage now (statusByte # dataBytes) \<noteq> None \<longrightarrow> 1 \<le> length dataBytes)
   \<and> parseMidiMessage now (statusByte # a # b # rest) = parseMidiMessage now [statusByte, a, b]
   \<and> (bitand statusByte (Num 240) = PROGRAM_CHANGE_STATUS \<longrightarrow>
        parseMidiMessage now (statusByte # a # rest) = parseMidiMessage now [statusByte, a])"
proof (intro conjI impI)
  assume "bitand statusByte (Num 240) \<in> {NOTE_OFF_STATUS, NOTE_ON_STATUS, CONTROL_CHANGE_STATUS}
      \<and> parseMidiMessage now (statusByte # dataBytes) \<noteq> None"
  then show "2 \<le> length dataBytes"
    using parse_too_few_data [of statusByte dataBytes now] by (cases "length dataBytes < 2") auto
next
  assume "bitand statusByte (Num 240) = PROGRAM_CHANGE_STATUS
      \<and> parseMidiMessage now (statusByte # dataBytes) \<noteq> None"
  then show "1 \<le> length dataBytes"
    using parse_short [of "statusByte # dataBytes" now] by (cases dataBytes) auto
next
  show "parseMidiMessage now (statusByte # a # b # rest) = parseMidiMessage now [statusByte, a, b]"
    by (rule parse_ignores_rest)
next
  assume "bitand statusByte (Num 240) = PROGRAM_CHANGE_STATUS"
  then show "parseMidiMessage now (statusByte # a # rest) = parseMidiMessage now [statusByte, a]"
    by (rule parse_program_change_ignores_rest)
qed

theorem parse_data_byte_count_witness:
  "parseMidiMessage 1000 [Num 144, Num 60, Num 100] \<noteq> None
   \<and> 2 \<le> length [Num 60, Num 100]
   \<and> parseMidiMessage 1000 [Num 192, Num 42] \<noteq> None
   \<and> 1 \<le> length [Num 42]
   \<and> parseMidiMessage 1000 [Num 192, Num 42, Num 7] = parseMidiMessage 1000 [Num 192, Num 42]"
  using parse_data_byte_count [of "Num 144" 1000 "[Num 60, Num 100]"]
    parse_data_byte_count [of "Num 192" 1000 "[Num 42]" "Num 42" _ "[Num 7]"]
  by (simp add: parse_note_on parse_program_change bitand_240 status_defs)

section \<open>Properties of the emitter and of the enumeration\<close>

lemma callListeners_returning:
  "\<forall>listener \<in> set registered. \<forall>event. listener event = None \<Longrightarrow>
   callListeners registered event = None"
  by (induction registered) simp_all

lemma snd_emit: "snd (emit event self) = self\<lparr>emitted := emitted self @ [event]\<rparr>"
  by (cases event) (simp_all add: emit_def Let_def)

lemma emit_ordinary:
  assumes "returnsNormally self" and "\<forall>err. event \<noteq> ErrorEvent err"
  shows "emit event self = (None, self\<lparr>emitted := emitted self @ [event]\<rparr>)"
proof -
  have "callListeners (listeners self (eventName event)) event = None"
    using assms(1) by (intro callListeners_returning) (simp add: returnsNormally_def)
  then show ?thesis
    using assms(2) by (cases event) (simp_all add: emit_def)
qed

lemma emit_ErrorEvent:
  assumes "returnsNormally self"
  shows "emit (ErrorEvent err) self =
    (if listeners self Name_error = [] then Some err else None,
     self\<lparr>emitted := emitted self @ [ErrorEvent err]\<rparr>)"
proof -
  have "callListeners (listeners self Name_error) (ErrorEvent err) = None"
    using assms by (intro callListeners_returning) (simp add: returnsNormally_def)
  then show ?thesis
    by (simp add: emit_def)
qed

lemma emit_unhandled:
  "listeners self Name_error = [] \<Longrightarrow>
   emit (ErrorEvent err) self = (Some err, self\<lparr>emitted := emitted self @ [ErrorEvent err]\<rparr>)"
  by (simp add: emit_def)

lemma returnsNormally_emitted [simp]:
  "returnsNormally (self\<lparr>emitted := events\<rparr>) = returnsNormally self"
  by (simp add: returnsNormally_def)

lemma returnsNormally_manager [simp]:
  "returnsNormally (m\<lparr>input := i\<rparr>) = returnsNormally m"
  "returnsNormally (m\<lparr>connectedDevice := c\<rparr>) = returnsNormally m"
  "returnsNormally (m\<lparr>isListening := l\<rparr>) = returnsNormally m"
  by (simp_all add: returnsNormally_def)

lemma emitEach_returning:
  assumes "\<forall>x err. event x \<noteq> ErrorEvent err"
  shows "returnsNormally self \<Longrightarrow>
    emitEach event xs self = (None, self\<lparr>emitted := emitted self @ map event xs\<rparr>)"
proof (induction xs arbitrary: self)
  case Nil
  then show ?case by simp
next
  case (Cons x xs)
  have "emit (event x) self = (None, self\<lparr>emitted := emitted self @ [event x]\<rparr>)"
    using Cons.prems assms by (simp add: emit_ordinary)
  then show ?case
    using Cons.IH [of "self\<lparr>emitted := emitted self @ [event x]\<rparr>"] Cons.prems by simp
qed


lemma detectDevices_frame:
  "detector (snd (detectDevices env sys)) = detector sys"
  "timers (snd (detectDevices env sys)) = timers sys"
  "timersCreated (snd (detectDevices env sys)) = timersCreated sys"
  "pending (snd (detectDevices env sys)) = pending sys"
  "inputsCreated (snd (detectDevices env sys)) = inputsCreated sys"
  "enumerations (snd (detectDevices env sys)) = enumerations sys + 1"
  by (simp_all add: detectDevices_def Let_def split: sum.splits prod.splits option.splits)

lemma compareDeviceLists_added:
  "added (compareDeviceLists old new) = filter (\<lambda>d. id_d d \<notin> id_d ` set old) new"
  by (simp add: compareDeviceLists_def)

lemma compareDeviceLists_removed:
  "removed (compareDeviceLists old new) = filter (\<lambda>d. id_d d \<notin> id_d ` set new) old"
  by (simp add: compareDeviceLists_def)

lemma detectAndCompareDevices_resume_returning:
  assumes "returnsNormally (detector sys)"
  shows "detectAndCompareDevices_resume (Inr new) sys =
    (Inr new,
     sys\<lparr>detector := (detector sys)
           \<lparr>emitted := emitted (detector sys) @
              (let changes = compareDeviceLists (lastKnownDevices (detector sys)) new in
               if added changes = [] \<and> removed changes = [] then []
               else DevicesChanged new # map DeviceAdded (added changes)
                      @ map DeviceRemoved (removed changes)),
            lastKnownDevices := new\<rparr>\<rparr>)"
  using assms
  by (simp add: detectAndCompareDevices_resume_def Let_def emit_ordinary emitEach_returning)

lemma detectAndCompareDevices_catch_unhandled:
  assumes "listeners (detector sys) Name_error = []" and "instanceofMidiError error"
  shows "detectAndCompareDevices_catch error sys =
    (Inl error,
     sys\<lparr>detector := (detector sys)\<lparr>emitted := emitted (detector sys) @ [ErrorEvent error]\<rparr>\<rparr>)"
  using assms by (simp add: detectAndCompareDevices_catch_def emit_unhandled)

lemma detectAndCompareDevices_catch_handled:
  assumes "returnsNormally (detector sys)" and "listeners (detector sys) Name_error \<noteq> []"
    and "instanceofMidiError error"
  shows "detectAndCompareDevices_catch error sys =
    (Inr (lastKnownDevices (detector sys)),
     sys\<lparr>detector := (detector sys)\<lparr>emitted := emitted (detector sys) @ [ErrorEvent error]\<rparr>\<rparr>)"
  using assms by (simp add: detectAndCompareDevices_catch_def emit_ErrorEvent)


section \<open>Properties of the example states\<close>

lemma toString_examples:
  "toString 0 = ''0''" "toString (Suc 0) = ''1''"
  by code_simp+

lemma example_strings:
  "asciiToLowerCase (asciiReplaceWhiteSpace False ''A'') = ''a''"
  "asciiToLowerCase (asciiReplaceWhiteSpace False ''B'') = ''b''"
  "asciiToLowerCase (asciiReplaceWhiteSpace False ''C'') = ''c''"
    apply code_simp
   apply code_simp
  apply code_simp
  done

lemma deviceIdOf_examples:
  "deviceIdOf (example_environment ports opening closing) 0 ''A'' = ''0-a''"
  "deviceIdOf (example_environment ports opening closing) (Suc 0) ''B'' = ''1-b''"
  "deviceIdOf (example_environment ports opening closing) (Suc 0) ''C'' = ''1-c''"
  by (simp_all only: deviceIdOf_def example_environment_def Environment.simps example_strings
      toString_examples append.simps)

lemma example_environment_simps:
  "listPorts (example_environment ports opening closing) n = ports"
  "createInput (example_environment ports opening closing) n = None"
  "openPort (example_environment ports opening closing) t = opening"
  "closePort (example_environment ports opening closing) h = closing"
  by (simp_all add: example_environment_def)

lemma detectDevices_example:
  "detectDevices (example_environment (Inr [''A'', ''C'']) opening closing) sys =
    (Inr [\<lparr>id_d = ''0-a'', name_d = ''A'', manufacturer_d = None, connected_d = False\<rparr>,
          \<lparr>id_d = ''1-c'', name_d = ''C'', manufacturer_d = None, connected_d = False\<rparr>],
     sys\<lparr>enumerations := enumerations sys + 1\<rparr>)"
  by (simp add: detectDevices_def enumerate_eq_zip upt_rec deviceIdOf_examples
      example_environment_simps)

lemma returnsNormally_examples:
  "returnsNormally (example_detector noListeners)"
  "returnsNormally (example_detector (noListeners(Name_error := [returning])))"
  "returnsNormally example_manager"
  by (simp_all add: returnsNormally_def example_detector_def example_manager_def
      addListener_def noListeners_def returning_def)

lemma detectDevices_example_failure:
  "fst (detectDevices (example_environment (Inl (Error ''enumeration failed'')) opening closing)
     (example_system registered)) =
   Inl (MidiError UNKNOWN_ERROR ''Failed to detect MIDI devices''
          (Some (Error ''enumeration failed'')))"
  "detector (snd (detectDevices
     (example_environment (Inl (Error ''enumeration failed'')) opening closing)
     (example_system registered))) = example_detector registered"
  using returnsNormally_examples(3)
  by (simp_all add: detectDevices_def example_environment_simps example_system_def Let_def
      emit_ErrorEvent)

section \<open>The diff\<close>

text \<open>
  Claim C3. The diff takes for \<open>added\<close> the devices of the new list whose id is not among
  the ids of the old list, and for \<open>removed\<close> the devices of the old list whose id is not
  among the ids of the new list; the id is the only key, so a device that is in both
  lists under one id, with whatever name and connected flag, is in neither result, and
  the names and flags of the other list's devices have no part in either result.
\<close>

theorem compareDeviceLists_by_id:
  "added (compareDeviceLists old new) = filter (\<lambda>d. id_d d \<notin> id_d ` set old) new
   \<and> removed (compareDeviceLists old new) = filter (\<lambda>d. id_d d \<notin> id_d ` set new) old
   \<and> (\<forall>d0 d1. d0 \<in> set old \<and> d1 \<in> set new \<and> id_d d0 = id_d d1 \<longrightarrow>
         d1 \<notin> set (added (compareDeviceLists old new))
         \<and> d0 \<notin> set (removed (compareDeviceLists old new)))
   \<and> (map id_d old' = map id_d old \<longrightarrow>
         added (compareDeviceLists old' new) = added (compareDeviceLists old new))
   \<and> (map id_d new' = map id_d new \<longrightarrow>
         removed (compareDeviceLists old new') = removed (compareDeviceLists old new))"
proof (intro conjI allI impI)
  show "added (compareDeviceLists old new) = filter (\<lambda>d. id_d d \<notin> id_d ` set old) new"
    by (rule compareDeviceLists_added)
  show "removed (compareDeviceLists old new) = filter (\<lambda>d. id_d d \<notin> id_d ` set new) old"
    by (rule compareDeviceLists_removed)
next
  fix d0 d1
  assume both: "d0 \<in> set old \<and> d1 \<in> set new \<and> id_d d0 = id_d d1"
  then have "id_d d1 \<in> id_d ` set old" and "id_d d0 \<in> id_d ` set new"
    by (metis imageI)+
  then show "d1 \<notin> set (added (compareDeviceLists old new))"
    and "d0 \<notin> set (removed (compareDeviceLists old new))"
    by (simp_all add: compareDeviceLists_added compareDeviceLists_removed)
next
  assume "map id_d old' = map id_d old"
  then have "id_d ` set old' = id_d ` set old"
    by (metis set_map)
  then show "added (compareDeviceLists old' new) = added (compareDeviceLists old new)"
    by (simp add: compareDeviceLists_added)
next
  assume "map id_d new' = map id_d new"
  then have "id_d ` set new' = id_d ` set new"
    by (metis set_map)
  then show "removed (compareDeviceLists old new') = removed (compareDeviceLists old new)"
    by (simp add: compareDeviceLists_removed)
qed

text \<open>The lists \<open>[a, b]\<close> and \<open>[b, c]\<close> of the specification, \<open>b\<close> renamed and connected.\<close>

theorem compareDeviceLists_by_id_witness:
  "compareDeviceLists
     [\<lparr>id_d = ''a'', name_d = ''A'', manufacturer_d = None, connected_d = False\<rparr>,
      \<lparr>id_d = ''b'', name_d = ''B'', manufacturer_d = None, connected_d = False\<rparr>]
     [\<lparr>id_d = ''b'', name_d = ''B renamed'', manufacturer_d = None, connected_d = True\<rparr>,
      \<lparr>id_d = ''c'', name_d = ''C'', manufacturer_d = None, connected_d = False\<rparr>]
   = \<lparr>added = [\<lparr>id_d = ''c'', name_d = ''C'', manufacturer_d = None, connected_d = False\<rparr>],
      removed = [\<lparr>id_d = ''a'', name_d = ''A'', manufacturer_d = None, connected_d = False\<rparr>]\<rparr>"
  using compareDeviceLists_by_id
    [of "[\<lparr>id_d = ''a'', name_d = ''A'', manufacturer_d = None, connected_d = False\<rparr>,
          \<lparr>id_d = ''b'', name_d = ''B'', manufacturer_d = None, connected_d = False\<rparr>]"
        "[\<lparr>id_d = ''b'', name_d = ''B renamed'', manufacturer_d = None, connected_d = True\<rparr>,
          \<lparr>id_d = ''c'', name_d = ''C'', manufacturer_d = None, connected_d = False\<rparr>]"]
  by (cases "compareDeviceLists
     [\<lparr>id_d = ''a'', name_d = ''A'', manufacturer_d = None, connected_d = False\<rparr>,
      \<lparr>id_d = ''b'', name_d = ''B'', manufacturer_d = None, connected_d = False\<rparr>]
     [\<lparr>id_d = ''b'', name_d = ''B renamed'', manufacturer_d = None, connected_d = True\<rparr>,
      \<lparr>id_d = ''c'', name_d = ''C'', manufacturer_d = None, connected_d = False\<rparr>]") simp

section \<open>The poll\<close>





text \<open>
  A poll whose enumeration fails. With a listener for \<^verbatim>\<open>error\<close> on the detector, and no
  listener that throws, the handler returns the last known list, which it leaves as it
  is, and emits the error once.
\<close>

lemma poll_failure_handled:
  assumes "returnsNormally (detector sys)" and "listeners (detector sys) Name_error \<noteq> []"
    and "fst (detectDevices env sys) = Inl error"
  shows "fst (refreshDevices env sys) = Inr (lastKnownDevices (detector sys))"
    and "lastKnownDevices (detector (snd (refreshDevices env sys))) =
          lastKnownDevices (detector sys)"
    and "emitted (detector (snd (refreshDevices env sys))) =
          emitted (detector sys) @
            [ErrorEvent (if instanceofMidiError error then error
                         else MidiError UNKNOWN_ERROR ''Failed to detect device changes''
                                (Some error))]"
proof -
  obtain sys1 where d: "detectDevices env sys = (Inl error, sys1)"
    using assms(3) by (cases "detectDevices env sys") simp
  have sys1: "detector sys1 = detector sys"
    using detectDevices_frame(1) [of env sys] d by simp
  show "fst (refreshDevices env sys) = Inr (lastKnownDevices (detector sys))"
    and "lastKnownDevices (detector (snd (refreshDevices env sys))) =
          lastKnownDevices (detector sys)"
    and "emitted (detector (snd (refreshDevices env sys))) =
          emitted (detector sys) @
            [ErrorEvent (if instanceofMidiError error then error
                         else MidiError UNKNOWN_ERROR ''Failed to detect device changes''
                                (Some error))]"
    using assms(1,2) d sys1
    by (simp_all add: refreshDevices_def detectAndCompareDevices_def
        detectAndCompareDevices_resume_def detectAndCompareDevices_catch_def Let_def
        emit_ErrorEvent)
qed

text \<open>
  Claim C5 says that a poll whose enumeration fails throws nothing and returns the
  previous list, and the handler says the same
  (\<^verbatim>\<open>return this.lastKnownDevices; // Return last known state on error\<close>). The statement
  before that line is \<^verbatim>\<open>this.emit('error', midiError)\<close>, and an emitter that has no
  listener for \<^verbatim>\<open>error\<close> throws the error it is given. A detector has none when it is
  constructed, and no code of the repository registers one. So on such a detector the
  \<^verbatim>\<open>return\<close> is not reached: \<^verbatim>\<open>refreshDevices\<close> is rejected with the \<^verbatim>\<open>MidiError\<close> of the
  enumeration.
\<close>

theorem poll_failure_without_error_listener:
  "listeners (detector (example_system noListeners)) Name_error = []
   \<and> fst (refreshDevices (example_environment (Inl (Error ''enumeration failed'')) None None)
        (example_system noListeners)) =
     Inl (MidiError UNKNOWN_ERROR ''Failed to detect MIDI devices''
            (Some (Error ''enumeration failed'')))
   \<and> emitted (detector (snd (refreshDevices
        (example_environment (Inl (Error ''enumeration failed'')) None None)
        (example_system noListeners)))) =
     [ErrorEvent (MidiError UNKNOWN_ERROR ''Failed to detect MIDI devices''
        (Some (Error ''enumeration failed'')))]"
proof -
  obtain sys1 where d: "detectDevices
      (example_environment (Inl (Error ''enumeration failed'')) None None)
      (example_system noListeners) =
      (Inl (MidiError UNKNOWN_ERROR ''Failed to detect MIDI devices''
              (Some (Error ''enumeration failed''))), sys1)"
    using detectDevices_example_failure(1) [of None None noListeners]
    by (cases "detectDevices
      (example_environment (Inl (Error ''enumeration failed'')) None None)
      (example_system noListeners)") simp
  have sys1: "detector sys1 = example_detector noListeners"
    using detectDevices_example_failure(2) [of None None noListeners] d by simp
  have l: "listeners (example_detector noListeners) Name_error = []"
    by (simp add: example_detector_def noListeners_def)
  show ?thesis
    using d sys1 l
    by (simp add: refreshDevices_def detectAndCompareDevices_def
        detectAndCompareDevices_resume_def detectAndCompareDevices_catch_def Let_def
        emit_unhandled example_system_def)
      (simp add: example_detector_def)
qed

section \<open>Monitoring\<close>

lemma detectAndCompareDevices_start_frame:
  "detector (detectAndCompareDevices_start env sys) = detector sys"
  "timers (detectAndCompareDevices_start env sys) = timers sys"
  "timersCreated (detectAndCompareDevices_start env sys) = timersCreated sys"
  "enumerations (detectAndCompareDevices_start env sys) = enumerations sys + 1"
  "pending (detectAndCompareDevices_start env sys) =
     pending sys @ [fst (detectDevices env sys)]"
  using detectDevices_frame [of env sys]
  by (cases "detectDevices env sys"; simp add: detectAndCompareDevices_start_def)+

lemma startMonitoring_idle:
  assumes "\<not> isMonitoring (detector sys)"
  shows "isMonitoring (detector (startMonitoring env intervalMs sys))"
    and "timers (startMonitoring env intervalMs sys) =
          timers sys @ [(timersCreated sys, intervalMs)]"
    and "enumerations (startMonitoring env intervalMs sys) = enumerations sys + 1"
    and "monitoringInterval (detector (startMonitoring env intervalMs sys)) =
          Some (timersCreated sys)"
    and "pending (startMonitoring env intervalMs sys) =
          pending sys @ [fst (detectDevices env sys)]"
    and "lastKnownDevices (detector (startMonitoring env intervalMs sys)) =
          lastKnownDevices (detector sys)"
proof -
  let ?sys1 = "sys\<lparr>detector := (detector sys)\<lparr>isMonitoring := True\<rparr>\<rparr>"
  have "fst (detectDevices env ?sys1) = fst (detectDevices env sys)"
    by (simp add: detectDevices_def Let_def split: sum.splits prod.splits option.splits)
  then show "isMonitoring (detector (startMonitoring env intervalMs sys))"
    and "timers (startMonitoring env intervalMs sys) =
          timers sys @ [(timersCreated sys, intervalMs)]"
    and "enumerations (startMonitoring env intervalMs sys) = enumerations sys + 1"
    and "monitoringInterval (detector (startMonitoring env intervalMs sys)) =
          Some (timersCreated sys)"
    and "pending (startMonitoring env intervalMs sys) =
          pending sys @ [fst (detectDevices env sys)]"
    and "lastKnownDevices (detector (startMonitoring env intervalMs sys)) =
          lastKnownDevices (detector sys)"
    using assms
    by (simp_all add: startMonitoring_def Let_def detectAndCompareDevices_start_frame)
qed

lemma startMonitoring_active:
  "isMonitoring (detector sys) \<Longrightarrow> startMonitoring env intervalMs sys = sys"
  by (simp add: startMonitoring_def)

lemma stopMonitoring_idle:
  "\<not> isMonitoring (detector sys) \<Longrightarrow> stopMonitoring sys = sys"
  by (simp add: stopMonitoring_def)

lemma stopMonitoring_result:
  "\<not> isMonitoring (detector (stopMonitoring sys))"
  "lastKnownDevices (detector (stopMonitoring sys)) = lastKnownDevices (detector sys)"
  by (simp_all add: stopMonitoring_def Let_def split: option.splits)

text \<open>
  Claim C8. Started twice from rest, monitoring is in the state the first call left: one
  timer was added, the enumeration was called once, and one pass waits to go on.
  \<^verbatim>\<open>startMonitoring\<close> on an active detector changes nothing. \<^verbatim>\<open>stopMonitoring\<close> twice is
  \<^verbatim>\<open>stopMonitoring\<close> once, and it keeps the last known list.
\<close>

theorem monitoring_idempotent:
  "(\<not> isMonitoring (detector sys) \<longrightarrow>
      startMonitoring env intervalMs' (startMonitoring env intervalMs sys) =
        startMonitoring env intervalMs sys
      \<and> timers (startMonitoring env intervalMs' (startMonitoring env intervalMs sys)) =
          timers sys @ [(timersCreated sys, intervalMs)]
      \<and> enumerations (startMonitoring env intervalMs' (startMonitoring env intervalMs sys)) =
          enumerations sys + 1
      \<and> pending (startMonitoring env intervalMs' (startMonitoring env intervalMs sys)) =
          pending sys @ [fst (detectDevices env sys)])
   \<and> (isMonitoring (detector sys) \<longrightarrow> startMonitoring env intervalMs sys = sys)
   \<and> stopMonitoring (stopMonitoring sys) = stopMonitoring sys
   \<and> lastKnownDevices (detector (stopMonitoring sys)) = lastKnownDevices (detector sys)"
  by (simp add: stopMonitoring_idle stopMonitoring_result startMonitoring_active
      startMonitoring_idle)


text \<open>
  The detector knows \<open>[A, B]\<close> and the enumeration gives \<open>[A, C]\<close>. Right after
  \<^verbatim>\<open>startMonitoring\<close> the initial pass still waits, and the list is the old one; once the
  pass has gone on, the list is the new one. \<^verbatim>\<open>stopMonitoring\<close> keeps either.
\<close>

theorem monitoring_idempotent_witness:
  "\<not> isMonitoring (detector (example_system noListeners))
   \<and> timers (startMonitoring (example_environment (Inr [''A'', ''C'']) None None) 2000
        (startMonitoring (example_environment (Inr [''A'', ''C'']) None None) 2000
           (example_system noListeners))) = [(0, 2000)]
   \<and> enumerations (startMonitoring (example_environment (Inr [''A'', ''C'']) None None) 2000
        (startMonitoring (example_environment (Inr [''A'', ''C'']) None None) 2000
           (example_system noListeners))) = 1
   \<and> length (pending (startMonitoring (example_environment (Inr [''A'', ''C'']) None None) 2000
        (startMonitoring (example_environment (Inr [''A'', ''C'']) None None) 2000
           (example_system noListeners)))) = 1
   \<and> timers (stopMonitoring (stopMonitoring
        (startMonitoring (example_environment (Inr [''A'', ''C'']) None None) 2000
           (example_system noListeners)))) = []
   \<and> lastKnownDevices (detector (stopMonitoring
        (startMonitoring (example_environment (Inr [''A'', ''C'']) None None) 2000
           (example_system noListeners)))) =
      [\<lparr>id_d = ''0-a'', name_d = ''A'', manufacturer_d = None, connected_d = False\<rparr>,
       \<lparr>id_d = ''1-b'', name_d = ''B'', manufacturer_d = None, connected_d = False\<rparr>]
   \<and> lastKnownDevices (detector (stopMonitoring (resumePending
        (startMonitoring (example_environment (Inr [''A'', ''C'']) None None) 2000
           (example_system noListeners))))) =
      [\<lparr>id_d = ''0-a'', name_d = ''A'', manufacturer_d = None, connected_d = False\<rparr>,
       \<lparr>id_d = ''1-c'', name_d = ''C'', manufacturer_d = None, connected_d = False\<rparr>]"
proof -
  let ?env = "example_environment (Inr [''A'', ''C'']) None None"
  let ?started = "startMonitoring ?env 2000 (example_system noListeners)"
  have idle: "\<not> isMonitoring (detector (example_system noListeners))"
    by (simp add: example_system_def example_detector_def)
  have t: "timers (example_system noListeners) = []"
    "timersCreated (example_system noListeners) = 0"
    "enumerations (example_system noListeners) = 0"
    "pending (example_system noListeners) = []"
    by (simp_all add: example_system_def)
  have l: "lastKnownDevices (detector (example_system noListeners)) =
      [\<lparr>id_d = ''0-a'', name_d = ''A'', manufacturer_d = None, connected_d = False\<rparr>,
       \<lparr>id_d = ''1-b'', name_d = ''B'', manufacturer_d = None, connected_d = False\<rparr>]"
    by (simp add: example_system_def example_detector_def)
  have s: "timers (stopMonitoring ?started) = []"
    using idle t by (simp add: stopMonitoring_def Let_def startMonitoring_idle)
  have p: "pending ?started =
      [Inr [\<lparr>id_d = ''0-a'', name_d = ''A'', manufacturer_d = None, connected_d = False\<rparr>,
            \<lparr>id_d = ''1-c'', name_d = ''C'', manufacturer_d = None, connected_d = False\<rparr>]]"
    using idle t by (simp add: startMonitoring_idle detectDevices_example)
  have q: "returnsNormally (detector (?started\<lparr>pending := []\<rparr>))"
    using idle returnsNormally_examples(1)
    by (simp add: startMonitoring_def Let_def detectAndCompareDevices_start_frame
        example_system_def returnsNormally_def)
  have r: "lastKnownDevices (detector (resumePending ?started)) =
      [\<lparr>id_d = ''0-a'', name_d = ''A'', manufacturer_d = None, connected_d = False\<rparr>,
       \<lparr>id_d = ''1-c'', name_d = ''C'', manufacturer_d = None, connected_d = False\<rparr>]"
    using p q by (simp add: resumePending_def detectAndCompareDevices_resume_returning)
  show ?thesis
    using monitoring_idempotent [of "example_system noListeners" ?env 2000 2000]
      monitoring_idempotent [of ?started ?env 2000 2000]
      monitoring_idempotent [of "resumePending ?started" ?env 2000 2000]
      idle t l s p r
    by (auto simp add: startMonitoring_idle)
qed

section \<open>Connecting while connected\<close>

lemma disconnect_closes:
  assumes "connectedDevice self = Some device"
    and "case input self of Some h \<Rightarrow> closePort env h = None | None \<Rightarrow> True"
    and "returnsNormally self"
  shows "disconnect env self =
    (None, self\<lparr>emitted := emitted self @ [DeviceDisconnected (device\<lparr>connected_d := False\<rparr>)],
                input := None, connectedDevice := None, isListening := False\<rparr>)"
  using assms
  by (cases "input self") (simp_all add: disconnect_def disconnect_try_def Let_def emit_ordinary)

lemma detectDevices_succeeds:
  assumes "fst (detectDevices env sys) = Inr availableDevices"
  shows "detectDevices env (sys\<lparr>manager := self\<rparr>) =
    (Inr availableDevices, sys\<lparr>manager := self, enumerations := enumerations sys + 1\<rparr>)"
  using assms
  by (simp add: detectDevices_def Let_def split: sum.splits prod.splits option.splits)

lemma connectToDevice_try_unknown:
  assumes "connectedDevice (manager sys) = Some device"
    and "case input (manager sys) of Some h \<Rightarrow> closePort env h = None | None \<Rightarrow> True"
    and "returnsNormally (manager sys)"
    and "fst (detectDevices env sys) = Inr availableDevices"
    and "find (\<lambda>d. id_d d = deviceId) availableDevices = None"
  shows "connectToDevice_try env deviceId sys =
    (Some (MidiError DEVICE_NOT_FOUND
       (''MIDI device with ID '' @ [CHR 0x27] @ deviceId @ [CHR 0x27] @ '' not found'') None),
     sys\<lparr>manager := (manager sys)
           \<lparr>emitted := emitted (manager sys) @
              [DeviceDisconnected (device\<lparr>connected_d := False\<rparr>)],
            input := None, connectedDevice := None, isListening := False\<rparr>,
         enumerations := enumerations sys + 1\<rparr>)"
  using assms(1,5)
  by (simp add: connectToDevice_try_def disconnect_closes [OF assms(1,2,3)]
      detectDevices_succeeds [OF assms(4)])

lemma connectToDevice_try_open_fails:
  assumes "connectedDevice (manager sys) = Some device"
    and "case input (manager sys) of Some h \<Rightarrow> closePort env h = None | None \<Rightarrow> True"
    and "returnsNormally (manager sys)"
    and "fst (detectDevices env sys) = Inr availableDevices"
    and "find (\<lambda>d. id_d d = deviceId) availableDevices = Some targetDevice"
    and "createInput env (inputsCreated sys) = None"
    and "openPort env (takeWhile (\<lambda>c. c \<noteq> CHR ''-'') deviceId) = Some thrown"
  shows "connectToDevice_try env deviceId sys =
    (Some (openPortError env targetDevice thrown),
     sys\<lparr>manager := (manager sys)
           \<lparr>emitted := emitted (manager sys) @
              [DeviceDisconnected (device\<lparr>connected_d := False\<rparr>)],
            input := Some (inputsCreated sys), connectedDevice := None, isListening := False\<rparr>,
         enumerations := enumerations sys + 1, inputsCreated := inputsCreated sys + 1\<rparr>)"
  using assms(1,5,6,7)
  by (simp add: connectToDevice_try_def disconnect_closes [OF assms(1,2,3)]
      detectDevices_succeeds [OF assms(4)] Let_def)

lemma instanceofMidiError_openPortError:
  "instanceofMidiError (openPortError env targetDevice thrown)"
  by (simp add: openPortError_def Let_def)


lemma connectToDevice_rethrows:
  assumes "connectToDevice_try env deviceId sys = (Some error, sys1)"
    and "instanceofMidiError error" and "returnsNormally (manager sys1)"
  shows "fst (connectToDevice env deviceId sys) = Some error"
    and "manager (snd (connectToDevice env deviceId sys)) =
          (manager sys1)\<lparr>emitted := emitted (manager sys1) @ [ErrorEvent error],
                          input := None\<rparr>"
  using assms
  by (cases "input (manager sys1)";
      simp add: connectToDevice_def Let_def emit_ErrorEvent)+

lemma example_connected_system_simps:
  "connectedDevice (manager (example_connected_system registered)) =
     Some \<lparr>id_d = ''0-a'', name_d = ''A'', manufacturer_d = None, connected_d = True\<rparr>"
  "input (manager (example_connected_system registered)) = Some 0"
  "emitted (manager (example_connected_system registered)) = []"
  "listeners (manager (example_connected_system registered)) = registered"
  "inputsCreated (example_connected_system registered) = 1"
  "enumerations (example_connected_system registered) = 1"
  by (simp_all add: example_connected_system_def)

text \<open>A port that is in use.\<close>

lemma openPortError_example:
  "openPortError (example_environment ports opening closing)
     \<lparr>id_d = ''0-a'', name_d = ''A'', manufacturer_d = None, connected_d = False\<rparr>
     (Error ''Device in USE'') =
   MidiError DEVICE_BUSY
     (''MIDI device '' @ [CHR 0x27] @ ''A'' @ [CHR 0x27]
        @ '' is busy or in use by another application.'')
     (Some (Error ''Device in USE''))"
proof -
  have "asciiToLowerCase ''Device in USE'' = ''device in use''"
    by code_simp
  moreover have "\<not> includes_str ''device in use'' ''permission''"
    "\<not> includes_str ''device in use'' ''access''"
    "includes_str ''device in use'' ''use''"
    by code_simp+
  ultimately show ?thesis
    by (simp add: openPortError_def example_environment_def Let_def)
qed

text \<open>
  Claim C10 says that the old device is disconnected whenever the new attempt fails on an
  unknown id or on \<^verbatim>\<open>openPort\<close>. Two things can keep \<^verbatim>\<open>disconnect\<close> from getting to
  \<^verbatim>\<open>this.connectedDevice = null\<close>; in both its handler emits an error and returns, and the
  attempt then fails on the unknown id with \<^verbatim>\<open>getConnectedDevice()\<close> still returning the
  old device.
  \<^item> \<^verbatim>\<open>closePort\<close> on the old input throws: no \<^verbatim>\<open>deviceDisconnected\<close> is emitted, and the
    device is still marked connected.
  \<^item> A listener for \<^verbatim>\<open>deviceDisconnected\<close> throws: the device is kept, marked not
    connected.
\<close>

theorem failed_connect_keeps_device:
  "connectedDevice (manager (example_connected_system (noListeners(Name_error := [returning])))) =
     Some \<lparr>id_d = ''0-a'', name_d = ''A'', manufacturer_d = None, connected_d = True\<rparr>
   \<and> fst (connectToDevice
        (example_environment (Inr [''A'', ''C'']) None (Some (Error ''close failed'')))
        ''7-unknown'' (example_connected_system (noListeners(Name_error := [returning])))) =
     Some (MidiError DEVICE_NOT_FOUND
        (''MIDI device with ID '' @ [CHR 0x27] @ ''7-unknown'' @ [CHR 0x27] @ '' not found'') None)
   \<and> connectedDevice (manager (snd (connectToDevice
        (example_environment (Inr [''A'', ''C'']) None (Some (Error ''close failed'')))
        ''7-unknown'' (example_connected_system (noListeners(Name_error := [returning])))))) =
     Some \<lparr>id_d = ''0-a'', name_d = ''A'', manufacturer_d = None, connected_d = True\<rparr>
   \<and> emitted (manager (snd (connectToDevice
        (example_environment (Inr [''A'', ''C'']) None (Some (Error ''close failed'')))
        ''7-unknown'' (example_connected_system (noListeners(Name_error := [returning])))))) =
     [ErrorEvent (MidiError UNKNOWN_ERROR ''Error during MIDI device disconnection''
        (Some (Error ''close failed''))),
      ErrorEvent (MidiError DEVICE_NOT_FOUND
        (''MIDI device with ID '' @ [CHR 0x27] @ ''7-unknown'' @ [CHR 0x27] @ '' not found'') None)]
   \<and> fst (connectToDevice (example_environment (Inr [''A'', ''C'']) None None) ''7-unknown''
        (example_connected_system
           (noListeners(Name_deviceDisconnected := [throwing], Name_error := [returning])))) =
     Some (MidiError DEVICE_NOT_FOUND
        (''MIDI device with ID '' @ [CHR 0x27] @ ''7-unknown'' @ [CHR 0x27] @ '' not found'') None)
   \<and> connectedDevice (manager (snd (connectToDevice
        (example_environment (Inr [''A'', ''C'']) None None) ''7-unknown''
        (example_connected_system
           (noListeners(Name_deviceDisconnected := [throwing], Name_error := [returning])))))) =
     Some \<lparr>id_d = ''0-a'', name_d = ''A'', manufacturer_d = None, connected_d = False\<rparr>"
  by (simp add: connectToDevice_def connectToDevice_try_def disconnect_def disconnect_try_def
      detectDevices_def example_connected_system_def example_environment_simps emit_def
      noListeners_def returning_def throwing_def Let_def enumerate_eq_zip upt_rec
      deviceIdOf_examples)

text \<open>
  Claim C10, amended. \<^verbatim>\<open>connectToDevice\<close> is called while a device is connected; closing
  the old port does not throw; no listener of the manager throws; the enumeration gives
  \<open>availableDevices\<close>; and the attempt fails, on an id that is not among them or on an
  \<^verbatim>\<open>openPort\<close> that throws. Then the caller gets a \<^verbatim>\<open>MidiError\<close>, and afterwards
  \<^verbatim>\<open>getConnectedDevice()\<close> is \<^verbatim>\<open>null\<close>, the input is \<^verbatim>\<open>null\<close>, and the manager has emitted
  \<^verbatim>\<open>deviceDisconnected\<close> for the old device (with its flag reset) and then the error. The
  enumeration reads nothing of the manager, so its outcome is stated on the state before
  the call.
\<close>

theorem failed_connect_disconnects:
  assumes connected: "connectedDevice (manager sys) = Some device"
    and closes: "case input (manager sys) of Some h \<Rightarrow> closePort env h = None | None \<Rightarrow> True"
    and quiet: "returnsNormally (manager sys)"
    and enumerated: "fst (detectDevices env sys) = Inr availableDevices"
    and fails: "find (\<lambda>d. id_d d = deviceId) availableDevices = None
        \<and> error = MidiError DEVICE_NOT_FOUND
            (''MIDI device with ID '' @ [CHR 0x27] @ deviceId @ [CHR 0x27] @ '' not found'') None
      \<or> (\<exists>targetDevice thrown.
            find (\<lambda>d. id_d d = deviceId) availableDevices = Some targetDevice
          \<and> createInput env (inputsCreated sys) = None
          \<and> openPort env (takeWhile (\<lambda>c. c \<noteq> CHR ''-'') deviceId) = Some thrown
          \<and> error = openPortError env targetDevice thrown)"
  shows "fst (connectToDevice env deviceId sys) = Some error
    \<and> instanceofMidiError error
    \<and> connectedDevice (manager (snd (connectToDevice env deviceId sys))) = None
    \<and> input (manager (snd (connectToDevice env deviceId sys))) = None
    \<and> emitted (manager (snd (connectToDevice env deviceId sys))) =
        emitted (manager sys) @
          [DeviceDisconnected (device\<lparr>connected_d := False\<rparr>), ErrorEvent error]"
  using fails
proof (elim disjE conjE exE)
  assume unknown: "find (\<lambda>d. id_d d = deviceId) availableDevices = None"
    and error: "error = MidiError DEVICE_NOT_FOUND
      (''MIDI device with ID '' @ [CHR 0x27] @ deviceId @ [CHR 0x27] @ '' not found'') None"
  note t = connectToDevice_try_unknown [OF connected closes quiet enumerated unknown]
  have m: "instanceofMidiError error"
    by (simp add: error)
  show ?thesis
    using connectToDevice_rethrows [OF t [folded error] m] quiet m by simp
next
  fix targetDevice thrown
  assume found: "find (\<lambda>d. id_d d = deviceId) availableDevices = Some targetDevice"
    and created: "createInput env (inputsCreated sys) = None"
    and opens: "openPort env (takeWhile (\<lambda>c. c \<noteq> CHR ''-'') deviceId) = Some thrown"
    and error: "error = openPortError env targetDevice thrown"
  note t = connectToDevice_try_open_fails
    [OF connected closes quiet enumerated found created opens]
  have m: "instanceofMidiError error"
    by (simp add: error instanceofMidiError_openPortError)
  show ?thesis
    using connectToDevice_rethrows [OF t [folded error] m] quiet m by simp
qed


text \<open>An unknown id, and a port that is in use; the manager has a listener for \<^verbatim>\<open>error\<close>.\<close>

theorem failed_connect_disconnects_witness:
  "connectedDevice (manager (example_connected_system (noListeners(Name_error := [returning])))) =
     Some \<lparr>id_d = ''0-a'', name_d = ''A'', manufacturer_d = None, connected_d = True\<rparr>
   \<and> returnsNormally (manager (example_connected_system (noListeners(Name_error := [returning]))))
   \<and> fst (connectToDevice (example_environment (Inr [''A'', ''C'']) None None) ''7-unknown''
        (example_connected_system (noListeners(Name_error := [returning])))) =
      Some (MidiError DEVICE_NOT_FOUND
        (''MIDI device with ID '' @ [CHR 0x27] @ ''7-unknown'' @ [CHR 0x27] @ '' not found'') None)
   \<and> connectedDevice (manager (snd (connectToDevice
        (example_environment (Inr [''A'', ''C'']) None None) ''7-unknown''
        (example_connected_system (noListeners(Name_error := [returning])))))) = None
   \<and> input (manager (snd (connectToDevice
        (example_environment (Inr [''A'', ''C'']) None None) ''7-unknown''
        (example_connected_system (noListeners(Name_error := [returning])))))) = None
   \<and> emitted (manager (snd (connectToDevice
        (example_environment (Inr [''A'', ''C'']) None None) ''7-unknown''
        (example_connected_system (noListeners(Name_error := [returning])))))) =
      [DeviceDisconnected
         \<lparr>id_d = ''0-a'', name_d = ''A'', manufacturer_d = None, connected_d = False\<rparr>,
       ErrorEvent (MidiError DEVICE_NOT_FOUND
         (''MIDI device with ID '' @ [CHR 0x27] @ ''7-unknown'' @ [CHR 0x27] @ '' not found'')
         None)]
   \<and> fst (connectToDevice
        (example_environment (Inr [''A'', ''C'']) (Some (Error ''Device in USE'')) None) ''0-a''
        (example_connected_system (noListeners(Name_error := [returning])))) =
      Some (MidiError DEVICE_BUSY
        (''MIDI device '' @ [CHR 0x27] @ ''A'' @ [CHR 0x27]
           @ '' is busy or in use by another application.'')
        (Some (Error ''Device in USE'')))
   \<and> connectedDevice (manager (snd (connectToDevice
        (example_environment (Inr [''A'', ''C'']) (Some (Error ''Device in USE'')) None) ''0-a''
        (example_connected_system (noListeners(Name_error := [returning])))))) = None
   \<and> input (manager (snd (connectToDevice
        (example_environment (Inr [''A'', ''C'']) (Some (Error ''Device in USE'')) None) ''0-a''
        (example_connected_system (noListeners(Name_error := [returning])))))) = None"
proof -
  let ?sys = "example_connected_system (noListeners(Name_error := [returning]))"
  let ?env = "example_environment (Inr [''A'', ''C'']) None None"
  let ?busy = "example_environment (Inr [''A'', ''C'']) (Some (Error ''Device in USE'')) None"
  let ?A = "\<lparr>id_d = ''0-a'', name_d = ''A'', manufacturer_d = None, connected_d = False\<rparr>"
  let ?C = "\<lparr>id_d = ''1-c'', name_d = ''C'', manufacturer_d = None, connected_d = False\<rparr>"
  have connected: "connectedDevice (manager ?sys) =
      Some \<lparr>id_d = ''0-a'', name_d = ''A'', manufacturer_d = None, connected_d = True\<rparr>"
    by (simp add: example_connected_system_simps)
  have closes: "case input (manager ?sys) of Some h \<Rightarrow> closePort ?env h = None | None \<Rightarrow> True"
    and closes': "case input (manager ?sys) of Some h \<Rightarrow> closePort ?busy h = None | None \<Rightarrow> True"
    by (simp_all add: example_connected_system_simps example_environment_simps)
  have quiet: "returnsNormally (manager ?sys)"
    by (simp add: returnsNormally_def example_connected_system_simps noListeners_def
        returning_def)
  have enumerated: "fst (detectDevices ?env ?sys) = Inr [?A, ?C]"
    and enumerated': "fst (detectDevices ?busy ?sys) = Inr [?A, ?C]"
    by (simp_all add: detectDevices_example)
  have unknown: "find (\<lambda>d. id_d d = ''7-unknown'') [?A, ?C] = None
        \<and> MidiError DEVICE_NOT_FOUND
            (''MIDI device with ID '' @ [CHR 0x27] @ ''7-unknown'' @ [CHR 0x27] @ '' not found'')
            None
          = MidiError DEVICE_NOT_FOUND
            (''MIDI device with ID '' @ [CHR 0x27] @ ''7-unknown'' @ [CHR 0x27] @ '' not found'')
            None
      \<or> (\<exists>targetDevice thrown.
            find (\<lambda>d. id_d d = ''7-unknown'') [?A, ?C] = Some targetDevice
          \<and> createInput ?env (inputsCreated ?sys) = None
          \<and> openPort ?env (takeWhile (\<lambda>c. c \<noteq> CHR ''-'') ''7-unknown'') = Some thrown
          \<and> MidiError DEVICE_NOT_FOUND
            (''MIDI device with ID '' @ [CHR 0x27] @ ''7-unknown'' @ [CHR 0x27] @ '' not found'')
            None = openPortError ?env targetDevice thrown)"
    by simp
  have busy: "find (\<lambda>d. id_d d = ''0-a'') [?A, ?C] = None
        \<and> MidiError DEVICE_BUSY
            (''MIDI device '' @ [CHR 0x27] @ ''A'' @ [CHR 0x27]
               @ '' is busy or in use by another application.'')
            (Some (Error ''Device in USE''))
          = MidiError DEVICE_NOT_FOUND
            (''MIDI device with ID '' @ [CHR 0x27] @ ''0-a'' @ [CHR 0x27] @ '' not found'') None
      \<or> (\<exists>targetDevice thrown.
            find (\<lambda>d. id_d d = ''0-a'') [?A, ?C] = Some targetDevice
          \<and> createInput ?busy (inputsCreated ?sys) = None
          \<and> openPort ?busy (takeWhile (\<lambda>c. c \<noteq> CHR ''-'') ''0-a'') = Some thrown
          \<and> MidiError DEVICE_BUSY
            (''MIDI device '' @ [CHR 0x27] @ ''A'' @ [CHR 0x27]
               @ '' is busy or in use by another application.'')
            (Some (Error ''Device in USE'')) = openPortError ?busy targetDevice thrown)"
    by (simp add: example_environment_simps openPortError_example)
  show ?thesis
    using failed_connect_disconnects [OF connected closes quiet enumerated unknown]
      failed_connect_disconnects [OF connected closes' quiet enumerated' busy]
      connected quiet
    by (simp add: example_connected_system_simps)
qed

section \<open>Properties of the copy\<close>

lemma getLastKnownDevices_reads:
  assumes "lastKnown < length (arrays heap)"
  shows "fst (getLastKnownDevices lastKnown heap) \<noteq> lastKnown"
    and "readDevices (snd (getLastKnownDevices lastKnown heap))
           (fst (getLastKnownDevices lastKnown heap)) = readDevices heap lastKnown"
    and "readDevices (snd (getLastKnownDevices lastKnown heap)) lastKnown =
           readDevices heap lastKnown"
    and "lastKnown < length (arrays (snd (getLastKnownDevices lastKnown heap)))"
  using assms by (simp_all add: getLastKnownDevices_def readDevices_def nth_append)

lemma ArrayWrite_other:
  "array \<noteq> other \<Longrightarrow> readDevices (mutate array (ArrayWrite contents) heap) other = readDevices heap other"
  by (simp add: readDevices_def)

lemma ArrayWrite_length:
  "length (arrays (mutate array (ArrayWrite contents) heap)) = length (arrays heap)"
  by simp

text \<open>
  Claim C9 says that no mutation through the returned value changes the last known list.
  The copy is shallow: \<^verbatim>\<open>returned[0].id = '9-z'\<close> writes the device object that the
  detector's own array holds too. A later \<^verbatim>\<open>getLastKnownDevices\<close> shows the new id, and
  the next poll, enumerating the same device, reports it as added and the renamed one
  as removed.
\<close>

theorem getLastKnownDevices_shares_elements:
  "readDevices example_heap 0 =
     [\<lparr>id_d = ''0-a'', name_d = ''A'', manufacturer_d = None, connected_d = False\<rparr>]
   \<and> fst (getLastKnownDevices 0 example_heap) = 1
   \<and> readDevices (mutate 1 (SetId 0 ''9-z'') (snd (getLastKnownDevices 0 example_heap))) 0 =
     [\<lparr>id_d = ''9-z'', name_d = ''A'', manufacturer_d = None, connected_d = False\<rparr>]
   \<and> readDevices
       (snd (getLastKnownDevices 0
          (mutate 1 (SetId 0 ''9-z'') (snd (getLastKnownDevices 0 example_heap)))))
       (fst (getLastKnownDevices 0
          (mutate 1 (SetId 0 ''9-z'') (snd (getLastKnownDevices 0 example_heap))))) =
     [\<lparr>id_d = ''9-z'', name_d = ''A'', manufacturer_d = None, connected_d = False\<rparr>]
   \<and> compareDeviceLists (readDevices example_heap 0)
       [\<lparr>id_d = ''0-a'', name_d = ''A'', manufacturer_d = None, connected_d = False\<rparr>] =
     \<lparr>added = [], removed = []\<rparr>
   \<and> compareDeviceLists
       (readDevices (mutate 1 (SetId 0 ''9-z'') (snd (getLastKnownDevices 0 example_heap))) 0)
       [\<lparr>id_d = ''0-a'', name_d = ''A'', manufacturer_d = None, connected_d = False\<rparr>] =
     \<lparr>added = [\<lparr>id_d = ''0-a'', name_d = ''A'', manufacturer_d = None, connected_d = False\<rparr>],
      removed = [\<lparr>id_d = ''9-z'', name_d = ''A'', manufacturer_d = None, connected_d = False\<rparr>]\<rparr>"
  by (simp add: example_heap_def getLastKnownDevices_def readDevices_def writeElement_def
      compareDeviceLists_def)

text \<open>
  Claim C9, amended. The returned array is a new one with the devices of the last known
  list, and whatever the caller writes into the returned array itself, the last known
  list reads as before: to a later \<^verbatim>\<open>getLastKnownDevices\<close> and to the diff of the next
  poll.
\<close>

theorem getLastKnownDevices_shallow_copy:
  assumes "lastKnown < length (arrays heap)"
  shows "readDevices (snd (getLastKnownDevices lastKnown heap))
           (fst (getLastKnownDevices lastKnown heap)) = readDevices heap lastKnown
    \<and> readDevices
         (mutate (fst (getLastKnownDevices lastKnown heap)) (ArrayWrite contents)
            (snd (getLastKnownDevices lastKnown heap)))
         lastKnown = readDevices heap lastKnown
    \<and> readDevices
         (snd (getLastKnownDevices lastKnown
            (mutate (fst (getLastKnownDevices lastKnown heap)) (ArrayWrite contents)
               (snd (getLastKnownDevices lastKnown heap)))))
         (fst (getLastKnownDevices lastKnown
            (mutate (fst (getLastKnownDevices lastKnown heap)) (ArrayWrite contents)
               (snd (getLastKnownDevices lastKnown heap)))))
        = readDevices heap lastKnown
    \<and> compareDeviceLists
         (readDevices
            (mutate (fst (getLastKnownDevices lastKnown heap)) (ArrayWrite contents)
               (snd (getLastKnownDevices lastKnown heap)))
            lastKnown) newDevices
        = compareDeviceLists (readDevices heap lastKnown) newDevices"
proof -
  let ?returned = "fst (getLastKnownDevices lastKnown heap)"
  let ?heap1 = "snd (getLastKnownDevices lastKnown heap)"
  let ?heap2 = "mutate ?returned (ArrayWrite contents) ?heap1"
  have same: "readDevices ?heap2 lastKnown = readDevices heap lastKnown"
    using getLastKnownDevices_reads(1,3) [OF assms] ArrayWrite_other [of ?returned lastKnown contents ?heap1]
    by simp
  have "lastKnown < length (arrays ?heap2)"
    using getLastKnownDevices_reads(4) [OF assms] by (simp only: ArrayWrite_length)
  then have "readDevices (snd (getLastKnownDevices lastKnown ?heap2))
         (fst (getLastKnownDevices lastKnown ?heap2)) = readDevices ?heap2 lastKnown"
    by (rule getLastKnownDevices_reads(2))
  then show ?thesis
    using same getLastKnownDevices_reads(2) [OF assms] by simp
qed

theorem getLastKnownDevices_shallow_copy_witness:
  "0 < length (arrays example_heap)
   \<and> readDevices (mutate (fst (getLastKnownDevices 0 example_heap)) (ArrayWrite [])
        (snd (getLastKnownDevices 0 example_heap))) (fst (getLastKnownDevices 0 example_heap)) = []
   \<and> readDevices (mutate (fst (getLastKnownDevices 0 example_heap)) (ArrayWrite [])
        (snd (getLastKnownDevices 0 example_heap))) 0 =
     [\<lparr>id_d = ''0-a'', name_d = ''A'', manufacturer_d = None, connected_d = False\<rparr>]"
proof -
  have w: "0 < length (arrays example_heap)"
    by (simp add: example_heap_def)
  have r: "readDevices example_heap 0 =
     [\<lparr>id_d = ''0-a'', name_d = ''A'', manufacturer_d = None, connected_d = False\<rparr>]"
    by (simp add: example_heap_def readDevices_def)
  have e: "readDevices (mutate (fst (getLastKnownDevices 0 example_heap)) (ArrayWrite [])
        (snd (getLastKnownDevices 0 example_heap))) (fst (getLastKnownDevices 0 example_heap)) = []"
    by (simp add: example_heap_def getLastKnownDevices_def readDevices_def)
  show ?thesis
    using getLastKnownDevices_shallow_copy [OF w, of "[]"] w r e by simp
qed

end
